theory Spec2Isabelle
  imports Complex_Main "HOL-Library.AList"
begin

text \<open>
  A shallow embedding of the session readers, the privacy filter and the aggregations of
  claude-optic, a TypeScript library that reads the session data of a coding assistant. The
  first part follows the source files, one section each. What belongs to the JavaScript
  engine or to the machine is an argument of the functions that use it: the home directory,
  the local calendar of \<^verbatim>\<open>Date\<close>, \<^verbatim>\<open>JSON.parse\<close> and the file system. The lines of a file
  are parsed into typed records, as the source casts them; a line that holds JSON of
  another shape is outside the model.
\<close>

section \<open>Strings\<close>

text \<open>
  A JavaScript string is modelled as a \<^typ>\<open>string\<close>: one \<^typ>\<open>char\<close> per code unit,
  restricted to code units below 256.
\<close>

text \<open>\<^verbatim>\<open>s.startsWith(p)\<close>\<close>

fun startsWith :: "string \<Rightarrow> string \<Rightarrow> bool" where
  "startsWith [] s = True"
| "startsWith (p # ps) [] = False"
| "startsWith (p # ps) (c # cs) = (p = c \<and> startsWith ps cs)"

text \<open>
  The white space of \<^verbatim>\<open>trim()\<close> and of the regular-expression class \<^verbatim>\<open>\s\<close>, among
  the code units below 256: tab, line feed, vertical tab, form feed, carriage return,
  space and no-break space.
\<close>

definition is_ws :: "char \<Rightarrow> bool" where
  "is_ws c = (c \<in> set [CHR 0x09, CHR 0x0A, CHR 0x0B, CHR 0x0C, CHR 0x0D, CHR 0x20, CHR 0xA0])"

text \<open>\<^verbatim>\<open>!line.trim()\<close>: the line is empty once trimmed.\<close>

definition blank :: "string \<Rightarrow> bool" where
  "blank line = list_all is_ws line"

text \<open>
  \<^verbatim>\<open>s.split(sep)\<close> for a non-empty separator: the pieces between the non-overlapping
  occurrences of \<open>sep\<close>, found from the left. The counter is the number of code units
  of a separator just found that are still to be passed over.
\<close>

fun split_go :: "string \<Rightarrow> nat \<Rightarrow> string \<Rightarrow> string \<Rightarrow> string list" where
  "split_go sep k cur [] = [rev cur]"
| "split_go sep (Suc k) cur (c # cs) = split_go sep k cur cs"
| "split_go sep 0 cur (c # cs) =
     (if startsWith sep (c # cs) then rev cur # split_go sep (length sep - 1) [] cs
      else split_go sep 0 (c # cur) cs)"

definition split :: "string \<Rightarrow> string \<Rightarrow> string list" where
  "split sep s = split_go sep 0 [] s"

text \<open>\<^verbatim>\<open>parts.join(sep)\<close>\<close>

fun join :: "string \<Rightarrow> string list \<Rightarrow> string" where
  "join sep [] = []"
| "join sep [x] = x"
| "join sep (x # y # ys) = x @ sep @ join sep (y # ys)"

text \<open>\<^verbatim>\<open>xs.slice(-2)\<close>: the last two elements, or all of them when there are fewer.\<close>

definition slice_last2 :: "'a list \<Rightarrow> 'a list" where
  "slice_last2 xs = drop (length xs - 2) xs"

text \<open>
  \<^verbatim>\<open>s.replaceAll(pat, rep)\<close> with a string pattern. An empty pattern matches between
  all code units and at both ends.
\<close>

fun replace_go :: "string \<Rightarrow> string \<Rightarrow> nat \<Rightarrow> string \<Rightarrow> string" where
  "replace_go pat rep k [] = []"
| "replace_go pat rep (Suc k) (c # cs) = replace_go pat rep k cs"
| "replace_go pat rep 0 (c # cs) =
     (if startsWith pat (c # cs) then rep @ replace_go pat rep (length pat - 1) cs
      else c # replace_go pat rep 0 cs)"

definition replaceAll :: "string \<Rightarrow> string \<Rightarrow> string \<Rightarrow> string" where
  "replaceAll pat rep s =
     (if pat = [] then rep @ concat (map (\<lambda>c. c # rep) s) else replace_go pat rep 0 s)"

text \<open>\<^verbatim>\<open>s.includes(p)\<close>\<close>

fun includes_str :: "string \<Rightarrow> string \<Rightarrow> bool" where
  "includes_str [] p = (p = [])"
| "includes_str (c # cs) p = (startsWith p (c # cs) \<or> includes_str cs p)"

text \<open>\<^verbatim>\<open>s.toLowerCase()\<close> on the code units below 256.\<close>

definition lower_char :: "char \<Rightarrow> char" where
  "lower_char c =
     (let n = (of_char c :: nat)
      in if (65 \<le> n \<and> n \<le> 90) \<or> (192 \<le> n \<and> n \<le> 222 \<and> n \<noteq> 215)
         then char_of (n + 32) else c)"

definition toLowerCase :: "string \<Rightarrow> string" where
  "toLowerCase s = map lower_char s"

section \<open>JSON scalars\<close>

text \<open>
  The values of a tool invocation's arguments and the \<^verbatim>\<open>toolUseResult\<close> payload have type
  \<^verbatim>\<open>unknown\<close> in the source. They are modelled as JSON scalars; arrays and objects in
  these places are outside the model. \<open>truthy\<close> is JavaScript's conversion to a boolean.
\<close>

datatype jval = JNull | JBool bool | JNum int | JStr string

fun truthy :: "jval \<Rightarrow> bool" where
  "truthy JNull = False"
| "truthy (JBool b) = b"
| "truthy (JNum n) = (n \<noteq> 0)"
| "truthy (JStr s) = (s \<noteq> [])"

text \<open>A string that is present and not empty.\<close>

fun truthy_str :: "string option \<Rightarrow> bool" where
  "truthy_str None = False"
| "truthy_str (Some s) = (s \<noteq> [])"

section \<open>types/transcript.ts\<close>

datatype BlockType = Text | Thinking | Tool_use | Tool_result

record ContentBlock =
  b_type :: BlockType
  b_text :: "string option"
  b_thinking :: "string option"
  b_name :: "string option"
  b_id :: "string option"
  b_tool_use_id :: "string option"
  b_input :: "(string \<times> jval) list option"
  b_content :: "jval option"

datatype Content = CString string | CBlocks "ContentBlock list"

datatype Role = User | Assistant

record Usage =
  input_tokens :: "int option"
  output_tokens :: "int option"
  cache_creation_input_tokens :: "int option"
  cache_read_input_tokens :: "int option"

record Message =
  m_role :: "Role option"
  m_content :: "Content option"
  m_model :: "string option"
  m_usage :: "Usage option"

record TranscriptEntry =
  e_type :: "string option"
  e_message :: "Message option"
  e_timestamp :: "string option"
  e_gitBranch :: "string option"
  e_planContent :: "string option"
  e_cwd :: "string option"
  e_sessionId :: "string option"
  e_isSidechain :: "bool option"
  e_parentUuid :: "string option"
  e_uuid :: "string option"
  e_toolUseResult :: "jval option"

section \<open>types/privacy.ts\<close>

text \<open>
  A \<^verbatim>\<open>RegExp\<close> is an object of the JavaScript engine. It is modelled by its global flag
  and its matcher: \<open>re_exec re s i\<close> is the start and the length of the leftmost match
  in \<open>s\<close> at or after index \<open>i\<close>, if there is one.
\<close>

record RegExp =
  re_global :: bool
  re_exec :: "string \<Rightarrow> nat \<Rightarrow> (nat \<times> nat) option"

text \<open>
  The expressions written in the source are all of one shape: a sequence of literal
  alternatives, repeated character classes and word boundaries. \<open>Class p lo hi\<close> is the
  greedy repetition \<^verbatim>\<open>[p]{lo,hi}\<close>, without an upper bound when \<open>hi\<close> is \<open>None\<close>.
\<close>

datatype RegexItem = Lits "string list" | Class "char \<Rightarrow> bool" nat "nat option" | WordBoundary

definition upper_char :: "char \<Rightarrow> char" where
  "upper_char c =
     (let n = (of_char c :: nat)
      in if (97 \<le> n \<and> n \<le> 122) \<or> (224 \<le> n \<and> n \<le> 254 \<and> n \<noteq> 247)
         then char_of (n - 32) else c)"

definition in_range :: "char \<Rightarrow> char \<Rightarrow> char \<Rightarrow> bool" where
  "in_range lo hi c = ((of_char lo :: nat) \<le> of_char c \<and> (of_char c :: nat) \<le> of_char hi)"

definition is_digit :: "char \<Rightarrow> bool" where
  "is_digit c = in_range CHR ''0'' CHR ''9'' c"

definition is_alpha :: "char \<Rightarrow> bool" where
  "is_alpha c = (in_range CHR ''a'' CHR ''z'' c \<or> in_range CHR ''A'' CHR ''Z'' c)"

definition is_alnum :: "char \<Rightarrow> bool" where
  "is_alnum c = (is_alpha c \<or> is_digit c)"

text \<open>The class \<^verbatim>\<open>\w\<close>, which decides \<^verbatim>\<open>\b\<close>.\<close>

definition is_word :: "char \<Rightarrow> bool" where
  "is_word c = (is_alnum c \<or> c = CHR ''_'')"

definition word_at :: "string \<Rightarrow> nat \<Rightarrow> bool" where
  "word_at s i = (i < length s \<and> is_word (s ! i))"

definition is_boundary :: "string \<Rightarrow> nat \<Rightarrow> bool" where
  "is_boundary s i = ((i > 0 \<and> word_at s (i - 1)) \<noteq> word_at s i)"

definition char_eq :: "bool \<Rightarrow> char \<Rightarrow> char \<Rightarrow> bool" where
  "char_eq ignoreCase a b = (if ignoreCase then upper_char a = upper_char b else a = b)"

definition class_ok :: "bool \<Rightarrow> (char \<Rightarrow> bool) \<Rightarrow> char \<Rightarrow> bool" where
  "class_ok ignoreCase p c = (p c \<or> (ignoreCase \<and> (p (lower_char c) \<or> p (upper_char c))))"

text \<open>The literal \<open>a\<close> stands in \<open>s\<close> at index \<open>i\<close>.\<close>

definition lit_at :: "bool \<Rightarrow> string \<Rightarrow> string \<Rightarrow> nat \<Rightarrow> bool" where
  "lit_at ignoreCase a s i =
     (i + length a \<le> length s \<and> list_all2 (char_eq ignoreCase) a (take (length a) (drop i s)))"

fun first_some :: "'a option list \<Rightarrow> 'a option" where
  "first_some [] = None"
| "first_some (Some x # xs) = Some x"
| "first_some (None # xs) = first_some xs"

text \<open>Greedy repetition with backtracking: the largest count from \<open>n\<close> down to \<open>lo\<close> that lets the rest match.\<close>

fun first_down :: "(nat \<Rightarrow> 'a option) \<Rightarrow> nat \<Rightarrow> nat \<Rightarrow> 'a option" where
  "first_down k lo 0 = (if lo = 0 then k 0 else None)"
| "first_down k lo (Suc n) =
     (if Suc n < lo then None
      else case k (Suc n) of Some r \<Rightarrow> Some r | None \<Rightarrow> first_down k lo n)"

text \<open>The end of the match of the items in \<open>s\<close> from index \<open>i\<close>, if they match there.\<close>

fun match_items :: "bool \<Rightarrow> RegexItem list \<Rightarrow> string \<Rightarrow> nat \<Rightarrow> nat option" where
  "match_items ignoreCase [] s i = Some i"
| "match_items ignoreCase (Lits alts # rest) s i =
     first_some (map (\<lambda>a. if lit_at ignoreCase a s i
                           then match_items ignoreCase rest s (i + length a) else None) alts)"
| "match_items ignoreCase (Class p lo hi # rest) s i =
     (let run = length (takeWhile (class_ok ignoreCase p) (drop i s));
          n = (case hi of None \<Rightarrow> run | Some h \<Rightarrow> min run h)
      in first_down (\<lambda>c. match_items ignoreCase rest s (i + c)) lo n)"
| "match_items ignoreCase (WordBoundary # rest) s i =
     (if is_boundary s i then match_items ignoreCase rest s i else None)"

text \<open>The leftmost match at or after \<open>i\<close>: its start and its length.\<close>

definition search_from :: "bool \<Rightarrow> RegexItem list \<Rightarrow> string \<Rightarrow> nat \<Rightarrow> (nat \<times> nat) option" where
  "search_from ignoreCase items s i =
     first_some (map (\<lambda>st. map_option (\<lambda>e. (st, e - st)) (match_items ignoreCase items s st))
                   [i..<Suc (length s)])"

definition regex :: "bool \<Rightarrow> bool \<Rightarrow> RegexItem list \<Rightarrow> RegExp" where
  "regex global ignoreCase items = \<lparr>re_global = global, re_exec = search_from ignoreCase items\<rparr>"

record PrivacyConfig =
  redactPrompts :: bool
  redactAbsolutePaths :: bool
  redactHomeDir :: bool
  stripThinking :: bool
  stripToolResults :: bool
  redactPatterns :: "RegExp list"
  excludeProjects :: "string list"

section \<open>privacy/config.ts\<close>

text \<open>The class \<^verbatim>\<open>["\s:=]\<close>.\<close>

definition is_separator :: "char \<Rightarrow> bool" where
  "is_separator c = (c = CHR 0x22 \<or> is_ws c \<or> c = CHR '':'' \<or> c = CHR ''='')"

definition CREDENTIAL_PATTERNS :: "RegExp list" where
  "CREDENTIAL_PATTERNS =
     [regex True True
        [Lits [''key'', ''token'', ''secret'', ''password'', ''api_key'', ''apikey'', ''auth''],
         Class is_separator 1 None,
         Class (\<lambda>c. is_alnum c \<or> c \<in> set ''+/=_-'') 20 None],
      regex True False
        [Lits [''Bearer''], Class is_ws 1 None,
         Class (\<lambda>c. is_alnum c \<or> c \<in> set ''+/=_-.'') 20 None],
      regex True False
        [Lits [''AKIA'', ''ABIA'', ''ACCA'', ''ASIA''],
         Class (\<lambda>c. in_range CHR ''A'' CHR ''Z'' c \<or> is_digit c) 16 (Some 16)],
      regex True False
        [Lits [''gh''], Class (\<lambda>c. c \<in> set ''pousr'') 1 (Some 1), Lits [''_''],
         Class (\<lambda>c. is_alnum c \<or> c = CHR ''_'') 36 None],
      regex True True
        [Lits [''secret'', ''token'', ''key''],
         Class is_separator 1 None,
         Class (\<lambda>c. is_digit c \<or> in_range CHR ''a'' CHR ''f'' c) 32 None]]"

definition EMAIL_PATTERN :: RegExp where
  "EMAIL_PATTERN =
     regex True False
       [Class (\<lambda>c. is_alnum c \<or> c \<in> set ''._%+-'') 1 None, Lits [''@''],
        Class (\<lambda>c. is_alnum c \<or> c \<in> set ''.-'') 1 None, Lits [''.''],
        Class is_alpha 2 None]"

definition IP_PATTERN :: RegExp where
  "IP_PATTERN =
     regex True False
       [WordBoundary, Class is_digit 1 (Some 3), Lits [''.''], Class is_digit 1 (Some 3),
        Lits [''.''], Class is_digit 1 (Some 3), Lits [''.''], Class is_digit 1 (Some 3),
        WordBoundary]"

definition LOCAL_PROFILE :: PrivacyConfig where
  "LOCAL_PROFILE =
     \<lparr>redactPrompts = False, redactAbsolutePaths = False, redactHomeDir = False,
      stripThinking = True, stripToolResults = True, redactPatterns = [],
      excludeProjects = []\<rparr>"

definition SHAREABLE_PROFILE :: PrivacyConfig where
  "SHAREABLE_PROFILE = LOCAL_PROFILE\<lparr>redactAbsolutePaths := True, redactHomeDir := True\<rparr>"

definition STRICT_PROFILE :: PrivacyConfig where
  "STRICT_PROFILE =
     SHAREABLE_PROFILE\<lparr>redactPrompts := True,
                       redactPatterns := CREDENTIAL_PATTERNS @ [EMAIL_PATTERN, IP_PATTERN]\<rparr>"

section \<open>privacy/redact.ts\<close>

text \<open>A match reported by the engine counts only when it lies in the string, at or after \<open>i\<close>.\<close>

definition valid_match :: "string \<Rightarrow> nat \<Rightarrow> (nat \<times> nat) option \<Rightarrow> (nat \<times> nat) option" where
  "valid_match s i r =
     (case r of
        None \<Rightarrow> None
      | Some (st, len) \<Rightarrow> if i \<le> st \<and> st + len \<le> length s then Some (st, len) else None)"

text \<open>
  \<^verbatim>\<open>s.replace(re, rep)\<close> for a global expression and a replacement without \<^verbatim>\<open>$\<close>: every
  match is replaced; after an empty match the search moves on by one code unit.
  \<open>copied\<close> is the end of the previous match.
\<close>

function replace_from ::
  "(string \<Rightarrow> nat \<Rightarrow> (nat \<times> nat) option) \<Rightarrow> string \<Rightarrow> string \<Rightarrow> nat \<Rightarrow> nat \<Rightarrow> string" where
  "replace_from ex rep s copied i =
     (case valid_match s i (ex s i) of
        None \<Rightarrow> drop copied s
      | Some (st, len) \<Rightarrow>
          take (st - copied) (drop copied s) @ rep @
          replace_from ex rep s (st + len) (if len = 0 then st + 1 else st + len))"
  by pat_completeness auto
termination
  by (relation "measure (\<lambda>(ex, rep, s, copied, i). Suc (length s) - i)")
     (auto simp: valid_match_def split: option.splits prod.splits if_splits)

declare replace_from.simps [simp del]

definition regex_replace :: "RegExp \<Rightarrow> string \<Rightarrow> string \<Rightarrow> string" where
  "regex_replace re rep s =
     (if re_global re then replace_from (re_exec re) rep s 0 0
      else (case valid_match s 0 (re_exec re s 0) of
              None \<Rightarrow> s
            | Some (st, len) \<Rightarrow> take st s @ rep @ drop (st + len) s))"

text \<open>
  The class \<^verbatim>\<open>[^\s"',;)}\]]\<close> of the absolute-path expression
  \<^verbatim>\<open>/\/(?:Users|home)\/[^\s"',;)}\]]+/g\<close>.
\<close>

definition path_char :: "char \<Rightarrow> bool" where
  "path_char c = (\<not> is_ws c \<and> c \<notin> set [CHR 0x22, CHR 0x27] \<and> c \<notin> set '',;)}]'')"

text \<open>The match of the absolute-path expression at the start of \<open>s\<close>, if any.\<close>

definition path_match :: "string \<Rightarrow> string option" where
  "path_match s =
     (if startsWith ''/Users/'' s then
        (let run = takeWhile path_char (drop 7 s)
         in if run = [] then None else Some (''/Users/'' @ run))
      else if startsWith ''/home/'' s then
        (let run = takeWhile path_char (drop 6 s)
         in if run = [] then None else Some (''/home/'' @ run))
      else None)"

text \<open>The replacer callback: the last two segments of the match.\<close>

definition path_replacer :: "string \<Rightarrow> string" where
  "path_replacer m =
     (let parts = split ''/'' m
      in if length parts > 2 then join ''/'' (slice_last2 parts) else m)"

fun compact_go :: "nat \<Rightarrow> string \<Rightarrow> string" where
  "compact_go k [] = []"
| "compact_go (Suc k) (c # cs) = compact_go k cs"
| "compact_go 0 (c # cs) =
     (case path_match (c # cs) of
        None \<Rightarrow> c # compact_go 0 cs
      | Some m \<Rightarrow> path_replacer m @ compact_go (length m - 1) cs)"

definition compactPaths :: "string \<Rightarrow> string" where
  "compactPaths s = compact_go 0 s"

text \<open>\<open>home\<close> is the value of \<^verbatim>\<open>homedir()\<close>, read once when the module is loaded.\<close>

definition redactString :: "string \<Rightarrow> string \<Rightarrow> PrivacyConfig \<Rightarrow> string" where
  "redactString home text config =
     (let r1 = (if redactHomeDir config then replaceAll home ''~'' text else text);
          r2 = (if redactAbsolutePaths config then compactPaths r1 else r1)
      in fold (\<lambda>pattern result. regex_replace pattern ''[REDACTED]'' result)
           (redactPatterns config) r2)"

fun filterContentBlocks :: "string \<Rightarrow> ContentBlock list \<Rightarrow> PrivacyConfig \<Rightarrow> ContentBlock list" where
  "filterContentBlocks home [] config = []"
| "filterContentBlocks home (block # blocks) config =
     (if stripThinking config \<and> b_type block = Thinking then filterContentBlocks home blocks config
      else if stripToolResults config \<and> b_type block = Tool_result
        then filterContentBlocks home blocks config
      else if truthy_str (b_text block) \<and> length (redactPatterns config) > 0
        then block\<lparr>b_text := Some (redactString home (the (b_text block)) config)\<rparr>
             # filterContentBlocks home blocks config
      else block # filterContentBlocks home blocks config)"

text \<open>\<open>None\<close> is the source's \<^verbatim>\<open>null\<close>: the entry is skipped entirely.\<close>

definition filterTranscriptEntry ::
  "string \<Rightarrow> TranscriptEntry \<Rightarrow> PrivacyConfig \<Rightarrow> TranscriptEntry option" where
  "filterTranscriptEntry home entry config =
     (if stripToolResults config \<and> e_toolUseResult entry \<noteq> None then None
      else case e_message entry of
        None \<Rightarrow> Some entry
      | Some message \<Rightarrow>
          (case (redactPrompts config \<and> m_role message = Some User, m_content message) of
             (True, Some (CString content)) \<Rightarrow>
               Some (entry\<lparr>e_message := Some (message\<lparr>m_content := Some (CString ''[redacted]'')\<rparr>)\<rparr>)
           | _ \<Rightarrow>
               (case (m_role message, m_content message) of
                  (Some Assistant, Some (CBlocks content)) \<Rightarrow>
                    Some (entry\<lparr>e_message := Some (message\<lparr>m_content :=
                            Some (CBlocks (filterContentBlocks home content config))\<rparr>)\<rparr>)
                | _ \<Rightarrow> Some entry)))"

definition isProjectExcluded :: "string \<Rightarrow> PrivacyConfig \<Rightarrow> bool" where
  "isProjectExcluded projectPath config =
     (if length (excludeProjects config) = 0 then False
      else (let lower = toLowerCase projectPath
            in list_ex (\<lambda>p. includes_str lower (toLowerCase p)) (excludeProjects config)))"

section \<open>utils/paths.ts\<close>

text \<open>\<^verbatim>\<open>projectPath.replace(/\//g, "-")\<close>: every slash becomes a dash.\<close>

definition encodeProjectPath :: "string \<Rightarrow> string" where
  "encodeProjectPath projectPath = map (\<lambda>c. if c = CHR ''/'' then CHR ''-'' else c) projectPath"

text \<open>\<^verbatim>\<open>encoded.replace(/-/g, "/")\<close>: every dash becomes a slash.\<close>

definition decodeProjectPath :: "string \<Rightarrow> string" where
  "decodeProjectPath encoded = map (\<lambda>c. if c = CHR ''-'' then CHR ''/'' else c) encoded"

text \<open>\<^verbatim>\<open>projectPath.split("/").pop() || projectPath\<close>\<close>

definition projectName :: "string \<Rightarrow> string" where
  "projectName projectPath =
     (let l = last (split ''/'' projectPath) in if l = [] then projectPath else l)"

section \<open>utils/dates.ts\<close>

text \<open>
  \<^verbatim>\<open>Date\<close> belongs to the engine and reads the machine's time zone. Its three getters
  are taken as they are: functions from the epoch-millisecond timestamp to the local year,
  month (from 0) and day of the month.
\<close>

record Calendar =
  getFullYear :: "int \<Rightarrow> int"
  getMonth :: "int \<Rightarrow> int"
  getDate :: "int \<Rightarrow> int"

fun show_nat :: "nat \<Rightarrow> string" where
  "show_nat n = (if n < 10 then [char_of (48 + n)] else show_nat (n div 10) @ [char_of (48 + n mod 10)])"

text \<open>\<^verbatim>\<open>String(n)\<close> of an integer.\<close>

definition String_of :: "int \<Rightarrow> string" where
  "String_of i = (if i < 0 then CHR ''-'' # show_nat (nat (- i)) else show_nat (nat i))"

text \<open>\<^verbatim>\<open>s.padStart(2, "0")\<close>\<close>

definition padStart2 :: "string \<Rightarrow> string" where
  "padStart2 s = replicate (2 - length s) CHR ''0'' @ s"

definition toLocalDate :: "Calendar \<Rightarrow> int \<Rightarrow> string" where
  "toLocalDate cal timestamp =
     (let year = getFullYear cal timestamp;
          month = padStart2 (String_of (getMonth cal timestamp + 1));
          day = padStart2 (String_of (getDate cal timestamp))
      in String_of year @ ''-'' @ month @ ''-'' @ day)"

text \<open>\<^verbatim>\<open>a < b\<close> on strings: lexicographic on the code units, a proper prefix being smaller.\<close>

fun str_lt :: "string \<Rightarrow> string \<Rightarrow> bool" where
  "str_lt a [] = False"
| "str_lt [] (y # ys) = True"
| "str_lt (x # xs) (y # ys) =
     ((of_char x :: nat) < of_char y \<or> (x = y \<and> str_lt xs ys))"

section \<open>types/session.ts\<close>

record HistoryEntry =
  h_display :: string
  h_timestamp :: int
  h_project :: string
  h_sessionId :: string

record TimeRange =
  tr_start :: int
  tr_end :: int

record SessionInfo =
  s_sessionId :: string
  s_project :: string
  s_projectName :: string
  s_prompts :: "string list"
  s_promptTimestamps :: "int list"
  s_timeRange :: TimeRange

record SessionMeta = SessionInfo +
  gitBranch :: "string option"
  model :: "string option"
  totalInputTokens :: int
  totalOutputTokens :: int
  cacheCreationInputTokens :: int
  cacheReadInputTokens :: int
  messageCount :: int

datatype ToolCategory = file_read | file_write | shell | search | web | task | other

record ToolCallSummary =
  tc_name :: string
  tc_displayName :: string
  tc_category :: ToolCategory
  tc_target :: "jval option"

record SessionDetail = SessionMeta +
  assistantSummaries :: "string list"
  toolCalls :: "ToolCallSummary list"
  filesReferenced :: "jval list"
  planReferenced :: bool
  thinkingBlockCount :: int
  hasSidechains :: bool

section \<open>readers/history-reader.ts\<close>

text \<open>
  \<^verbatim>\<open>JSON.parse(line) as HistoryEntry\<close> is the engine's; \<open>parse line = None\<close> stands for a
  line on which the body of the \<^verbatim>\<open>try\<close> throws. A file is read through
  \<open>fs :: string \<Rightarrow> string option\<close>, which is \<open>None\<close> where no file exists.
\<close>

fun scanHistory ::
  "Calendar \<Rightarrow> (string \<Rightarrow> HistoryEntry option) \<Rightarrow> string \<Rightarrow> string \<Rightarrow> PrivacyConfig \<Rightarrow>
   string list \<Rightarrow> HistoryEntry list \<Rightarrow> HistoryEntry list" where
  "scanHistory cal parse from to privacy [] entries = entries"
| "scanHistory cal parse from to privacy (line # lines) entries =
     (if blank line then scanHistory cal parse from to privacy lines entries
      else case parse line of
        None \<Rightarrow> scanHistory cal parse from to privacy lines entries
      | Some entry \<Rightarrow>
          (let entryDate = toLocalDate cal (h_timestamp entry)
           in if str_lt entryDate from \<or> str_lt to entryDate
                then scanHistory cal parse from to privacy lines entries
              else if isProjectExcluded (h_project entry) privacy
                then scanHistory cal parse from to privacy lines entries
              else scanHistory cal parse from to privacy lines (entries @ [entry])))"

text \<open>
  The value type of \<^verbatim>\<open>sessionMap\<close>. A JavaScript \<^verbatim>\<open>Map\<close> keeps its keys in insertion
  order, so the map is an association list: \<^const>\<open>AList.update\<close> replaces the value of a
  key in place and puts a new key at the end.
\<close>

record SessionData =
  d_project :: string
  d_prompts :: "string list"
  d_timestamps :: "int list"

definition promptDisplay :: "string \<Rightarrow> PrivacyConfig \<Rightarrow> HistoryEntry \<Rightarrow> string" where
  "promptDisplay home privacy entry =
     (if redactPrompts privacy then ''[redacted]''
      else if length (redactPatterns privacy) > 0 then redactString home (h_display entry) privacy
      else h_display entry)"

fun groupEntries ::
  "string \<Rightarrow> PrivacyConfig \<Rightarrow> HistoryEntry list \<Rightarrow> (string \<times> SessionData) list \<Rightarrow>
   (string \<times> SessionData) list" where
  "groupEntries home privacy [] sessionMap = sessionMap"
| "groupEntries home privacy (entry # entries) sessionMap =
     (let display = promptDisplay home privacy entry
      in case map_of sessionMap (h_sessionId entry) of
        Some existing \<Rightarrow>
          groupEntries home privacy entries
            (AList.update (h_sessionId entry)
               (existing\<lparr>d_prompts := d_prompts existing @ [display],
                          d_timestamps := d_timestamps existing @ [h_timestamp entry]\<rparr>)
               sessionMap)
      | None \<Rightarrow>
          groupEntries home privacy entries
            (AList.update (h_sessionId entry)
               \<lparr>d_project = h_project entry, d_prompts = [display],
                d_timestamps = [h_timestamp entry]\<rparr>
               sessionMap))"

text \<open>
  \<^verbatim>\<open>Math.min(...ts)\<close> and \<^verbatim>\<open>Math.max(...ts)\<close>. On the empty list JavaScript gives
  \<^verbatim>\<open>Infinity\<close> and \<^verbatim>\<open>-Infinity\<close>, which are no integers: the first equations stand for
  them, and are never reached from \<open>readHistory\<close>, where every group is created with one
  timestamp.
\<close>

fun Math_min :: "int list \<Rightarrow> int" where
  "Math_min [] = 0"
| "Math_min (t # ts) = fold min ts t"

fun Math_max :: "int list \<Rightarrow> int" where
  "Math_max [] = 0"
| "Math_max (t # ts) = fold max ts t"

definition toSessionInfo :: "string \<times> SessionData \<Rightarrow> SessionInfo" where
  "toSessionInfo kv =
     \<lparr>s_sessionId = fst kv, s_project = d_project (snd kv),
      s_projectName = projectName (d_project (snd kv)),
      s_prompts = d_prompts (snd kv), s_promptTimestamps = d_timestamps (snd kv),
      s_timeRange = \<lparr>tr_start = Math_min (d_timestamps (snd kv)),
                     tr_end = Math_max (d_timestamps (snd kv))\<rparr>\<rparr>"

text \<open>
  \<^verbatim>\<open>sessions.sort((a, b) => a.timeRange.start - b.timeRange.start)\<close>: the engine's sort is
  stable, as \<^const>\<open>sort_key\<close> is.
\<close>

definition readHistory ::
  "Calendar \<Rightarrow> string \<Rightarrow> (string \<Rightarrow> HistoryEntry option) \<Rightarrow> (string \<Rightarrow> string option) \<Rightarrow>
   string \<Rightarrow> string \<Rightarrow> string \<Rightarrow> PrivacyConfig \<Rightarrow> SessionInfo list" where
  "readHistory cal home parse fs historyFile from to privacy =
     (case fs historyFile of
        None \<Rightarrow> []
      | Some text \<Rightarrow>
          (let entries = scanHistory cal parse from to privacy (split [CHR 0x0A] text) [];
               sessionMap = groupEntries home privacy entries [];
               sessions = map toSessionInfo sessionMap
           in sort_key (\<lambda>s. tr_start (s_timeRange s)) sessions))"

section \<open>readers/session-reader.ts\<close>

text \<open>
  \<^verbatim>\<open>join(projectsDir, encoded, sessionId + ".jsonl")\<close>, without the normalisation that
  \<^verbatim>\<open>path.join\<close> also does.
\<close>

definition sessionFilePath :: "string \<Rightarrow> string \<Rightarrow> string \<Rightarrow> string" where
  "sessionFilePath projectsDir project sessionId =
     projectsDir @ ''/'' @ encodeProjectPath project @ ''/'' @ sessionId @ ''.jsonl''"

text \<open>\<^verbatim>\<open>{ ...session, totalInputTokens: 0, ... , messageCount: 0 }\<close>\<close>

definition initialMeta :: "SessionInfo \<Rightarrow> SessionMeta" where
  "initialMeta session =
     \<lparr>s_sessionId = s_sessionId session, s_project = s_project session,
      s_projectName = s_projectName session, s_prompts = s_prompts session,
      s_promptTimestamps = s_promptTimestamps session, s_timeRange = s_timeRange session,
      gitBranch = None, model = None, totalInputTokens = 0, totalOutputTokens = 0,
      cacheCreationInputTokens = 0, cacheReadInputTokens = 0, messageCount = 0\<rparr>"

text \<open>\<^verbatim>\<open>x ?? 0\<close>\<close>

definition orZero :: "int option \<Rightarrow> int" where
  "orZero x = (case x of None \<Rightarrow> 0 | Some n \<Rightarrow> n)"

text \<open>\<^verbatim>\<open>entry.message?.model\<close>, \<^verbatim>\<open>entry.message?.usage\<close>, \<^verbatim>\<open>entry.message?.role\<close>\<close>

definition messageModel :: "TranscriptEntry \<Rightarrow> string option" where
  "messageModel entry = (case e_message entry of None \<Rightarrow> None | Some m \<Rightarrow> m_model m)"

definition messageUsage :: "TranscriptEntry \<Rightarrow> Usage option" where
  "messageUsage entry = (case e_message entry of None \<Rightarrow> None | Some m \<Rightarrow> m_usage m)"

definition messageRole :: "TranscriptEntry \<Rightarrow> Role option" where
  "messageRole entry = (case e_message entry of None \<Rightarrow> None | Some m \<Rightarrow> m_role m)"

text \<open>The body of the loop of \<open>peekSession\<close> for one parsed line.\<close>

definition peekEntry :: "SessionMeta \<Rightarrow> TranscriptEntry \<Rightarrow> SessionMeta" where
  "peekEntry meta entry =
     (let meta1 = (if \<not> truthy_str (gitBranch meta) \<and> truthy_str (e_gitBranch entry)
                      \<and> e_gitBranch entry \<noteq> Some ''HEAD''
                   then meta\<lparr>gitBranch := e_gitBranch entry\<rparr> else meta);
          meta2 = (if \<not> truthy_str (model meta1) \<and> truthy_str (messageModel entry)
                   then meta1\<lparr>model := messageModel entry\<rparr> else meta1);
          meta3 = (case messageUsage entry of
                     None \<Rightarrow> meta2
                   | Some usage \<Rightarrow>
                       meta2\<lparr>totalInputTokens := totalInputTokens meta2 + orZero (input_tokens usage),
                             totalOutputTokens := totalOutputTokens meta2 + orZero (output_tokens usage),
                             cacheCreationInputTokens :=
                               cacheCreationInputTokens meta2 + orZero (cache_creation_input_tokens usage),
                             cacheReadInputTokens :=
                               cacheReadInputTokens meta2 + orZero (cache_read_input_tokens usage)\<rparr>)
      in if messageRole entry = Some User \<or> messageRole entry = Some Assistant
         then meta3\<lparr>messageCount := messageCount meta3 + 1\<rparr> else meta3)"

fun peekLines ::
  "(string \<Rightarrow> TranscriptEntry option) \<Rightarrow> string list \<Rightarrow> SessionMeta \<Rightarrow> SessionMeta" where
  "peekLines parse [] meta = meta"
| "peekLines parse (line # lines) meta =
     (if blank line then peekLines parse lines meta
      else case parse line of
        None \<Rightarrow> peekLines parse lines meta
      | Some entry \<Rightarrow> peekLines parse lines (peekEntry meta entry))"

text \<open>
  \<open>parse\<close> is \<^verbatim>\<open>JSON.parse(line) as TranscriptEntry\<close>, \<open>None\<close> where it throws. The
  source function has a \<open>privacy\<close> parameter and its body does not use it.
\<close>

definition peekSession ::
  "(string \<Rightarrow> TranscriptEntry option) \<Rightarrow> (string \<Rightarrow> string option) \<Rightarrow>
   SessionInfo \<Rightarrow> string \<Rightarrow> PrivacyConfig \<Rightarrow> SessionMeta" where
  "peekSession parse fs session projectsDir privacy =
     (let meta = initialMeta session
      in case fs (sessionFilePath projectsDir (s_project session) (s_sessionId session)) of
        None \<Rightarrow> meta
      | Some text \<Rightarrow> peekLines parse (split [CHR 0x0A] text) meta)"

section \<open>parsers/tool-categories.ts\<close>

definition TOOL_CATEGORY_MAP :: "(string \<times> ToolCategory) list" where
  "TOOL_CATEGORY_MAP =
     [(''Read'', file_read), (''Glob'', file_read), (''Grep'', file_read),
      (''ListMcpResourcesTool'', file_read), (''ReadMcpResourceTool'', file_read),
      (''Write'', file_write), (''Edit'', file_write), (''NotebookEdit'', file_write),
      (''Bash'', shell),
      (''WebSearch'', search), (''WebFetch'', web),
      (''Task'', task), (''TaskCreate'', task), (''TaskUpdate'', task), (''TaskGet'', task),
      (''TaskList'', task), (''TaskStop'', task), (''TaskOutput'', task),
      (''EnterPlanMode'', task), (''ExitPlanMode'', task), (''AskUserQuestion'', task),
      (''Skill'', task)]"

definition categorizeToolName :: "string \<Rightarrow> ToolCategory" where
  "categorizeToolName name =
     (case map_of TOOL_CATEGORY_MAP name of
        Some c \<Rightarrow> c
      | None \<Rightarrow>
          if startsWith ''mcp__'' name then
            (if includes_str name ''search'' then search
             else if includes_str name ''fetch'' \<or> includes_str name ''read'' then file_read
             else if includes_str name ''write'' \<or> includes_str name ''create''
                     \<or> includes_str name ''edit'' then file_write
             else other)
          else other)"

text \<open>\<^verbatim>\<open>input?.key && typeof input.key === "string"\<close>: the string, when it is one and not empty.\<close>

definition stringArg :: "(string \<times> jval) list option \<Rightarrow> string \<Rightarrow> string option" where
  "stringArg input key =
     (case input of
        None \<Rightarrow> None
      | Some i \<Rightarrow> (case map_of i key of Some (JStr s) \<Rightarrow> if s = [] then None else Some s | _ \<Rightarrow> None))"

definition shortToolName :: "string \<Rightarrow> string" where
  "shortToolName name =
     (if startsWith ''mcp__'' name
      then (let l = last (split ''__'' name) in if l = [] then name else l)
      else name)"

definition toolDisplayName :: "string \<Rightarrow> (string \<times> jval) list option \<Rightarrow> string" where
  "toolDisplayName name input =
     (let shortName = shortToolName name
      in case stringArg input ''file_path'' of
        Some file_path \<Rightarrow> shortName @ ''('' @ join ''/'' (slice_last2 (split ''/'' file_path)) @ '')''
      | None \<Rightarrow>
          (case stringArg input ''command'' of
             Some command \<Rightarrow> shortName @ ''('' @ hd (split '' '' command) @ '')''
           | None \<Rightarrow>
               (case stringArg input ''pattern'' of
                  Some pattern \<Rightarrow> shortName @ ''('' @ pattern @ '')''
                | None \<Rightarrow> shortName)))"

section \<open>parsers/content-blocks.ts\<close>

datatype error = TypeError

definition extractText :: "Content option \<Rightarrow> string" where
  "extractText content =
     (case content of
        None \<Rightarrow> []
      | Some (CString s) \<Rightarrow> s
      | Some (CBlocks blocks) \<Rightarrow>
          join [CHR 0x0A]
            (map (\<lambda>b. the (b_text b))
               (filter (\<lambda>b. b_type b = Text \<and> truthy_str (b_text b)) blocks)))"

text \<open>\<^verbatim>\<open>input.key\<close> read as a condition.\<close>

definition truthyArg :: "(string \<times> jval) list \<Rightarrow> string \<Rightarrow> bool" where
  "truthyArg input key = (case map_of input key of None \<Rightarrow> False | Some v \<Rightarrow> truthy v)"

text \<open>
  The source casts the arguments to strings without a check. Calling \<^verbatim>\<open>split\<close> or
  \<^verbatim>\<open>slice\<close> on a value that is no string throws a \<^verbatim>\<open>TypeError\<close>.
\<close>

definition extractToolTarget :: "ContentBlock \<Rightarrow> error + jval option" where
  "extractToolTarget block =
     (case b_input block of
        None \<Rightarrow> Inr None
      | Some input \<Rightarrow>
          if truthyArg input ''file_path'' then Inr (map_of input ''file_path'')
          else if truthyArg input ''notebook_path'' then Inr (map_of input ''notebook_path'')
          else if truthyArg input ''command'' then
            (case map_of input ''command'' of
               Some (JStr s) \<Rightarrow> Inr (Some (JStr (hd (split '' '' s))))
             | _ \<Rightarrow> Inl TypeError)
          else if truthyArg input ''pattern'' then Inr (map_of input ''pattern'')
          else if truthyArg input ''query'' then
            (case map_of input ''query'' of
               Some (JStr s) \<Rightarrow> Inr (Some (JStr (take 80 s)))
             | _ \<Rightarrow> Inl TypeError)
          else Inr None)"

fun toolCallsOf :: "ContentBlock list \<Rightarrow> error + ToolCallSummary list" where
  "toolCallsOf [] = Inr []"
| "toolCallsOf (b # bs) =
     (if b_type b = Tool_use \<and> truthy_str (b_name b) then
        (case extractToolTarget b of
           Inl e \<Rightarrow> Inl e
         | Inr target \<Rightarrow>
             (case toolCallsOf bs of
                Inl e \<Rightarrow> Inl e
              | Inr rest \<Rightarrow>
                  Inr (\<lparr>tc_name = the (b_name b),
                        tc_displayName = toolDisplayName (the (b_name b)) (b_input b),
                        tc_category = categorizeToolName (the (b_name b)),
                        tc_target = target\<rparr> # rest)))
      else toolCallsOf bs)"

definition extractToolCalls :: "Content option \<Rightarrow> error + ToolCallSummary list" where
  "extractToolCalls content =
     (case content of Some (CBlocks blocks) \<Rightarrow> toolCallsOf blocks | _ \<Rightarrow> Inr [])"

fun filePathsOf :: "ContentBlock list \<Rightarrow> jval list" where
  "filePathsOf [] = []"
| "filePathsOf (block # blocks) =
     (case (if b_type block \<noteq> Tool_use then None else b_input block) of
        None \<Rightarrow> filePathsOf blocks
      | Some input \<Rightarrow>
          (if truthyArg input ''file_path'' then [the (map_of input ''file_path'')] else []) @
          (if truthyArg input ''notebook_path'' then [the (map_of input ''notebook_path'')] else []) @
          filePathsOf blocks)"

definition extractFilePaths :: "Content option \<Rightarrow> jval list" where
  "extractFilePaths content =
     (case content of Some (CBlocks blocks) \<Rightarrow> filePathsOf blocks | _ \<Rightarrow> [])"

definition countThinkingBlocks :: "Content option \<Rightarrow> int" where
  "countThinkingBlocks content =
     (case content of
        Some (CBlocks blocks) \<Rightarrow> int (length (filter (\<lambda>b. b_type b = Thinking) blocks))
      | _ \<Rightarrow> 0)"

section \<open>parsers/session-detail.ts\<close>

definition initialDetail :: "SessionInfo \<Rightarrow> SessionDetail" where
  "initialDetail session =
     \<lparr>s_sessionId = s_sessionId session, s_project = s_project session,
      s_projectName = s_projectName session, s_prompts = s_prompts session,
      s_promptTimestamps = s_promptTimestamps session, s_timeRange = s_timeRange session,
      gitBranch = None, model = None, totalInputTokens = 0, totalOutputTokens = 0,
      cacheCreationInputTokens = 0, cacheReadInputTokens = 0, messageCount = 0,
      assistantSummaries = [], toolCalls = [], filesReferenced = [], planReferenced = False,
      thinkingBlockCount = 0, hasSidechains = False\<rparr>"

text \<open>
  The variables of the loop: the detail under construction, \<^verbatim>\<open>toolCallSet\<close> (a \<^verbatim>\<open>Map\<close>,
  in insertion order), \<^verbatim>\<open>fileSet\<close> (a \<^verbatim>\<open>Set\<close>, in insertion order), \<^verbatim>\<open>gitBranch\<close> and
  \<^verbatim>\<open>model\<close>.
\<close>

record ParseState =
  ps_detail :: SessionDetail
  ps_toolCallSet :: "(string \<times> ToolCallSummary) list"
  ps_fileSet :: "jval list"
  ps_gitBranch :: "string option"
  ps_model :: "string option"

text \<open>\<^verbatim>\<open>set.add(x)\<close>\<close>

definition Set_add :: "'a \<Rightarrow> 'a list \<Rightarrow> 'a list" where
  "Set_add x xs = (if x \<in> set xs then xs else xs @ [x])"

text \<open>\<^verbatim>\<open>for (const tc of tcs) toolCallSet.set(tc.displayName, tc)\<close>\<close>

definition addToolCalls ::
  "ToolCallSummary list \<Rightarrow> (string \<times> ToolCallSummary) list \<Rightarrow> (string \<times> ToolCallSummary) list" where
  "addToolCalls tcs toolCallSet = fold (\<lambda>tc m. AList.update (tc_displayName tc) tc m) tcs toolCallSet"

text \<open>A message content read as a condition: an array is always true.\<close>

fun truthy_content :: "Content option \<Rightarrow> bool" where
  "truthy_content None = False"
| "truthy_content (Some (CString s)) = (s \<noteq> [])"
| "truthy_content (Some (CBlocks blocks)) = True"

text \<open>The part of the loop body for an assistant message with content.\<close>

definition processAssistant :: "ParseState \<Rightarrow> Content option \<Rightarrow> error + ParseState" where
  "processAssistant st content =
     (let text = extractText content;
          st1 = (if text \<noteq> [] \<and> length text > 20
                 then st\<lparr>ps_detail := (ps_detail st)\<lparr>assistantSummaries :=
                        assistantSummaries (ps_detail st) @
                          [take 200 text @ (if length text > 200 then ''...'' else [])]\<rparr>\<rparr>
                 else st)
      in case extractToolCalls content of
        Inl e \<Rightarrow> Inl e
      | Inr tcs \<Rightarrow>
          (let st2 = st1\<lparr>ps_toolCallSet := addToolCalls tcs (ps_toolCallSet st1)\<rparr>;
               st3 = st2\<lparr>ps_fileSet := fold Set_add (extractFilePaths content) (ps_fileSet st2)\<rparr>
           in Inr (st3\<lparr>ps_detail := (ps_detail st3)\<lparr>thinkingBlockCount :=
                      thinkingBlockCount (ps_detail st3) + countThinkingBlocks content\<rparr>\<rparr>)))"

text \<open>The loop body after privacy filtering, for an entry that was not suppressed.\<close>

definition processEntry :: "ParseState \<Rightarrow> TranscriptEntry \<Rightarrow> error + ParseState" where
  "processEntry st filtered =
     (let st1 = (if e_isSidechain filtered = Some True
                 then st\<lparr>ps_detail := (ps_detail st)\<lparr>hasSidechains := True\<rparr>\<rparr> else st);
          st2 = (if \<not> truthy_str (ps_gitBranch st1) \<and> truthy_str (e_gitBranch filtered)
                    \<and> e_gitBranch filtered \<noteq> Some ''HEAD''
                 then st1\<lparr>ps_gitBranch := e_gitBranch filtered\<rparr> else st1);
          st3 = (if truthy_str (e_planContent filtered)
                 then st2\<lparr>ps_detail := (ps_detail st2)\<lparr>planReferenced := True\<rparr>\<rparr> else st2)
      in case e_message filtered of
        None \<Rightarrow> Inr st3
      | Some message \<Rightarrow>
          (let st4 = (if truthy_str (m_model message) \<and> \<not> truthy_str (ps_model st3)
                      then st3\<lparr>ps_model := m_model message\<rparr> else st3);
               st5 = (case m_usage message of
                        None \<Rightarrow> st4
                      | Some usage \<Rightarrow>
                          st4\<lparr>ps_detail := (ps_detail st4)
                            \<lparr>totalInputTokens :=
                               totalInputTokens (ps_detail st4) + orZero (input_tokens usage),
                             totalOutputTokens :=
                               totalOutputTokens (ps_detail st4) + orZero (output_tokens usage),
                             cacheCreationInputTokens :=
                               cacheCreationInputTokens (ps_detail st4)
                                 + orZero (cache_creation_input_tokens usage),
                             cacheReadInputTokens :=
                               cacheReadInputTokens (ps_detail st4)
                                 + orZero (cache_read_input_tokens usage)\<rparr>\<rparr>);
               st6 = (if m_role message = Some User \<or> m_role message = Some Assistant
                      then st5\<lparr>ps_detail := (ps_detail st5)\<lparr>messageCount :=
                             messageCount (ps_detail st5) + 1\<rparr>\<rparr>
                      else st5)
           in if m_role message = Some Assistant \<and> truthy_content (m_content message)
              then processAssistant st6 (m_content message)
              else Inr st6))"

fun parseLines ::
  "string \<Rightarrow> (string \<Rightarrow> TranscriptEntry option) \<Rightarrow> PrivacyConfig \<Rightarrow> string list \<Rightarrow>
   ParseState \<Rightarrow> error + ParseState" where
  "parseLines home parse privacy [] st = Inr st"
| "parseLines home parse privacy (line # lines) st =
     (if blank line then parseLines home parse privacy lines st
      else case parse line of
        None \<Rightarrow> parseLines home parse privacy lines st
      | Some entry \<Rightarrow>
          (case filterTranscriptEntry home entry privacy of
             None \<Rightarrow> parseLines home parse privacy lines st
           | Some filtered \<Rightarrow>
               (case processEntry st filtered of
                  Inl e \<Rightarrow> Inl e
                | Inr st' \<Rightarrow> parseLines home parse privacy lines st')))"

text \<open>The assignments after the loop.\<close>

definition finishDetail :: "ParseState \<Rightarrow> SessionDetail" where
  "finishDetail st =
     (ps_detail st)\<lparr>toolCalls := map snd (ps_toolCallSet st),
                    filesReferenced := ps_fileSet st,
                    gitBranch := ps_gitBranch st,
                    model := ps_model st,
                    assistantSummaries := take 10 (assistantSummaries (ps_detail st))\<rparr>"

definition parseSessionDetail ::
  "string \<Rightarrow> (string \<Rightarrow> TranscriptEntry option) \<Rightarrow> (string \<Rightarrow> string option) \<Rightarrow>
   SessionInfo \<Rightarrow> string \<Rightarrow> PrivacyConfig \<Rightarrow> error + SessionDetail" where
  "parseSessionDetail home parse fs session projectsDir privacy =
     (let detail = initialDetail session
      in case fs (sessionFilePath projectsDir (s_project session) (s_sessionId session)) of
        None \<Rightarrow> Inr detail
      | Some text \<Rightarrow>
          (case parseLines home parse privacy (split [CHR 0x0A] text)
                  \<lparr>ps_detail = detail, ps_toolCallSet = [], ps_fileSet = [],
                   ps_gitBranch = None, ps_model = None\<rparr> of
             Inl e \<Rightarrow> Inl e
           | Inr st \<Rightarrow> Inr (finishDetail st)))"

section \<open>aggregations/time.ts\<close>

definition GAP_CAP_MS :: int where
  "GAP_CAP_MS = 15 * 60 * 1000"

text \<open>The timestamps a session is measured on: sorted by \<^verbatim>\<open>(a, b) => a - b\<close>.\<close>

definition sessionTimestamps :: "SessionInfo \<Rightarrow> int list" where
  "sessionTimestamps session =
     (if length (s_promptTimestamps session) > 0 then sort (s_promptTimestamps session)
      else filter (\<lambda>t. t > 0) [tr_start (s_timeRange session), tr_end (s_timeRange session)])"

text \<open>\<^verbatim>\<open>for (let i = 1; i < timestamps.length; i++)\<close>, from the given \<open>i\<close>.\<close>

function gapLoop :: "int list \<Rightarrow> nat \<Rightarrow> int \<Rightarrow> int" where
  "gapLoop timestamps i totalMs =
     (if i < length timestamps
      then gapLoop timestamps (i + 1)
             (totalMs + min (timestamps ! i - timestamps ! (i - 1)) GAP_CAP_MS)
      else totalMs)"
  by pat_completeness auto
termination
  by (relation "measure (\<lambda>(timestamps, i, totalMs). length timestamps - i)") auto

declare gapLoop.simps [simp del]

fun sessionLoop :: "SessionInfo list \<Rightarrow> int \<Rightarrow> int" where
  "sessionLoop [] totalMs = totalMs"
| "sessionLoop (session # sessions) totalMs =
     (let timestamps = sessionTimestamps session
      in if length timestamps \<le> 1 then sessionLoop sessions (totalMs + 5 * 60 * 1000)
         else sessionLoop sessions (gapLoop timestamps 1 totalMs))"

text \<open>
  Timestamps and their sums are whole milliseconds, which JavaScript numbers hold exactly;
  the final quotient is taken in the reals.
\<close>

definition estimateHours :: "SessionInfo list \<Rightarrow> real" where
  "estimateHours sessions =
     (if length sessions = 0 then 0
      else real_of_int (sessionLoop sessions 0) / (1000 * 60 * 60))"

section \<open>pricing.ts\<close>

record ModelPricing =
  p_input :: real
  p_output :: real
  p_cacheWrite :: real
  p_cacheRead :: real

definition opus_rates :: ModelPricing where
  "opus_rates = \<lparr>p_input = 15, p_output = 75, p_cacheWrite = 18.75, p_cacheRead = 1.5\<rparr>"

definition sonnet_rates :: ModelPricing where
  "sonnet_rates = \<lparr>p_input = 3, p_output = 15, p_cacheWrite = 3.75, p_cacheRead = 0.3\<rparr>"

definition haiku_rates :: ModelPricing where
  "haiku_rates = \<lparr>p_input = 0.8, p_output = 4, p_cacheWrite = 1, p_cacheRead = 0.08\<rparr>"

text \<open>
  The table is a plain object used as a dictionary. It is modelled by the map of its own
  keys; what a read of a key gives, also of a key it does not own, is \<open>objectGet\<close> below.
\<close>

definition MODEL_PRICING :: "string \<rightharpoonup> ModelPricing" where
  "MODEL_PRICING = map_of
     [(''claude-opus-4-5-20250514'', opus_rates),
      (''claude-opus-4-6'', opus_rates),
      (''claude-sonnet-4-5-20250929'', sonnet_rates),
      (''claude-sonnet-4-5-20250514'', sonnet_rates),
      (''claude-sonnet-4-0-20250514'', sonnet_rates),
      (''claude-haiku-4-5-20251001'', haiku_rates),
      (''claude-haiku-3-5-20241022'', haiku_rates),
      (''claude-3-5-sonnet-20241022'', sonnet_rates),
      (''claude-3-5-sonnet-20240620'', sonnet_rates),
      (''claude-3-5-haiku-20241022'', haiku_rates),
      (''claude-3-opus-20240229'', opus_rates)]"

definition FALLBACK_PRICING :: ModelPricing where
  "FALLBACK_PRICING = \<lparr>p_input = 3, p_output = 15, p_cacheWrite = 3.75, p_cacheRead = 0.3\<rparr>"

text \<open>
  \<^verbatim>\<open>activePricing\<close> is a module variable; the functions that read it take its value as
  their first argument. \<open>setPricing\<close> gives the value it is assigned.
\<close>

definition setPricing :: "(string \<rightharpoonup> ModelPricing) \<Rightarrow> (string \<rightharpoonup> ModelPricing)" where
  "setPricing overrides = MODEL_PRICING ++ overrides"

text \<open>
  The names of the properties of \<^verbatim>\<open>Object.prototype\<close>, which every plain object inherits.
\<close>

definition OBJECT_PROTOTYPE_KEYS :: "string list" where
  "OBJECT_PROTOTYPE_KEYS =
     [''constructor'', ''__defineGetter__'', ''__defineSetter__'', ''hasOwnProperty'',
      ''__lookupGetter__'', ''__lookupSetter__'', ''isPrototypeOf'', ''propertyIsEnumerable'',
      ''toString'', ''valueOf'', ''__proto__'', ''toLocaleString'']"

text \<open>
  The value of \<^verbatim>\<open>obj[key]\<close> for a plain object with the given own keys: the entry of an own
  key; for a key that is not its own, the inherited function or object when
  \<^verbatim>\<open>Object.prototype\<close> has a property of that name, and \<^verbatim>\<open>undefined\<close> otherwise.
\<close>

datatype property = Undefined | Inherited | Entry ModelPricing

definition objectGet :: "(string \<rightharpoonup> ModelPricing) \<Rightarrow> string \<Rightarrow> property" where
  "objectGet obj key =
     (case obj key of
        Some pricing \<Rightarrow> Entry pricing
      | None \<Rightarrow> if key \<in> set OBJECT_PROTOTYPE_KEYS then Inherited else Undefined)"

text \<open>
  \<^verbatim>\<open>!model\<close> holds of \<^verbatim>\<open>undefined\<close> and of the empty string. \<^verbatim>\<open>x ?? FALLBACK_PRICING\<close>
  replaces \<^verbatim>\<open>undefined\<close> only, so an inherited value is returned as it is.
\<close>

definition getModelPricing :: "(string \<rightharpoonup> ModelPricing) \<Rightarrow> string option \<Rightarrow> property" where
  "getModelPricing activePricing model_id =
     (if \<not> truthy_str model_id then Entry FALLBACK_PRICING
      else case objectGet activePricing (the model_id) of
        Undefined \<Rightarrow> Entry FALLBACK_PRICING
      | found \<Rightarrow> found)"

text \<open>
  A JavaScript number that is the result of the cost formula: a real, or \<^verbatim>\<open>NaN\<close>. The four
  rate fields of an inherited value are \<^verbatim>\<open>undefined\<close>, each product with one is \<^verbatim>\<open>NaN\<close>, and
  so is the sum. A read of a field of \<^verbatim>\<open>undefined\<close> would throw; \<open>getModelPricing\<close> never
  returns it, and the case stands with \<^verbatim>\<open>NaN\<close> only to make the function total.
\<close>

datatype number = Num real | NaN

definition estimateCost :: "(string \<rightharpoonup> ModelPricing) \<Rightarrow> SessionMeta \<Rightarrow> number" where
  "estimateCost activePricing session =
     (let m = 1000000
      in case getModelPricing activePricing (model session) of
        Entry pricing \<Rightarrow>
          Num ((real_of_int (totalInputTokens session) / m) * p_input pricing +
               (real_of_int (totalOutputTokens session) / m) * p_output pricing +
               (real_of_int (cacheCreationInputTokens session) / m) * p_cacheWrite pricing +
               (real_of_int (cacheReadInputTokens session) / m) * p_cacheRead pricing)
      | _ \<Rightarrow> NaN)"

section \<open>The rows a history scan accepts\<close>

text \<open>The date of a timestamp lies in the window: the negation of the source's skip test.\<close>

definition in_window :: "Calendar \<Rightarrow> string \<Rightarrow> string \<Rightarrow> int \<Rightarrow> bool" where
  "in_window cal from to timestamp =
     (\<not> str_lt (toLocalDate cal timestamp) from \<and> \<not> str_lt to (toLocalDate cal timestamp))"

text \<open>
  The row a line of the log stands for, when the line is not blank, parses, is dated in the
  window and is of a project that is not excluded.
\<close>

definition acceptedLine ::
  "Calendar \<Rightarrow> (string \<Rightarrow> HistoryEntry option) \<Rightarrow> string \<Rightarrow> string \<Rightarrow> PrivacyConfig \<Rightarrow>
   string \<Rightarrow> HistoryEntry option" where
  "acceptedLine cal parse from to privacy line =
     (if blank line then None
      else case parse line of
        None \<Rightarrow> None
      | Some entry \<Rightarrow>
          if in_window cal from to (h_timestamp entry) \<and> \<not> isProjectExcluded (h_project entry) privacy
          then Some entry else None)"

definition acceptedEntries ::
  "Calendar \<Rightarrow> (string \<Rightarrow> HistoryEntry option) \<Rightarrow> (string \<Rightarrow> string option) \<Rightarrow>
   string \<Rightarrow> string \<Rightarrow> string \<Rightarrow> PrivacyConfig \<Rightarrow> HistoryEntry list" where
  "acceptedEntries cal parse fs historyFile from to privacy =
     (case fs historyFile of
        None \<Rightarrow> []
      | Some text \<Rightarrow> List.map_filter (acceptedLine cal parse from to privacy) (split [CHR 0x0A] text))"

text \<open>
  The data \<^verbatim>\<open>sessionMap\<close> holds for one session id: \<open>start\<close> is what it held before the
  rows \<open>es\<close> of that session were added.
\<close>

definition grouped ::
  "string \<Rightarrow> PrivacyConfig \<Rightarrow> SessionData option \<Rightarrow> HistoryEntry list \<Rightarrow> SessionData option" where
  "grouped home privacy start es =
     (case start of
        Some d \<Rightarrow> Some (d\<lparr>d_prompts := d_prompts d @ map (promptDisplay home privacy) es,
                          d_timestamps := d_timestamps d @ map h_timestamp es\<rparr>)
      | None \<Rightarrow>
          (case es of
             [] \<Rightarrow> None
           | e # _ \<Rightarrow> Some \<lparr>d_project = h_project e,
                            d_prompts = map (promptDisplay home privacy) es,
                            d_timestamps = map h_timestamp es\<rparr>))"

section \<open>The hour estimate, as a sum\<close>

text \<open>
  The capped gaps of a list of timestamps: five minutes for at most one timestamp, else
  the sum over the consecutive pairs of the smaller of the gap and fifteen minutes.
\<close>

definition cappedGaps :: "int list \<Rightarrow> int" where
  "cappedGaps ts =
     (if length ts \<le> 1 then 5 * 60 * 1000
      else (\<Sum>(a, b) \<leftarrow> zip ts (tl ts). min (b - a) (15 * 60 * 1000)))"

text \<open>
  What one session adds: the capped gaps of its prompt timestamps, sorted; and, for a
  session without prompt timestamps, those of the start and the end of its time range,
  as far as they are positive.
\<close>

definition contribution :: "SessionInfo \<Rightarrow> int" where
  "contribution s =
     (if s_promptTimestamps s \<noteq> [] then cappedGaps (sort (s_promptTimestamps s))
      else cappedGaps (filter (\<lambda>t. 0 < t) [tr_start (s_timeRange s), tr_end (s_timeRange s)]))"

section \<open>The cost of a session at given rates\<close>

text \<open>The sum over the four token buckets of the count, per million, times the rate of the bucket.\<close>

definition bucketCost :: "ModelPricing \<Rightarrow> SessionMeta \<Rightarrow> real" where
  "bucketCost rates session =
     real_of_int (totalInputTokens session) / 1000000 * p_input rates +
     real_of_int (totalOutputTokens session) / 1000000 * p_output rates +
     real_of_int (cacheCreationInputTokens session) / 1000000 * p_cacheWrite rates +
     real_of_int (cacheReadInputTokens session) / 1000000 * p_cacheRead rates"

section \<open>The tool calls of a session\<close>

text \<open>The transcript entries that are left of the lines of a file after privacy filtering.\<close>

definition survivingEntries ::
  "string \<Rightarrow> (string \<Rightarrow> TranscriptEntry option) \<Rightarrow> PrivacyConfig \<Rightarrow> string list \<Rightarrow>
   TranscriptEntry list" where
  "survivingEntries home parse privacy lines =
     List.map_filter
       (\<lambda>line. if blank line then None
               else case parse line of
                 None \<Rightarrow> None
               | Some entry \<Rightarrow> filterTranscriptEntry home entry privacy)
       lines"

text \<open>The tool-call summaries of one filtered entry: those of an assistant message with content.\<close>

definition entryToolCalls :: "TranscriptEntry \<Rightarrow> ToolCallSummary list" where
  "entryToolCalls filtered =
     (case e_message filtered of
        None \<Rightarrow> []
      | Some message \<Rightarrow>
          if m_role message = Some Assistant \<and> truthy_content (m_content message)
          then (case extractToolCalls (m_content message) of Inl e \<Rightarrow> [] | Inr tcs \<Rightarrow> tcs)
          else [])"

text \<open>
  The tool invocations of one filtered entry: the blocks of type \<^verbatim>\<open>tool_use\<close> with a name,
  in an assistant message whose content is an array of blocks.
\<close>

definition entryToolBlocks :: "TranscriptEntry \<Rightarrow> ContentBlock list" where
  "entryToolBlocks filtered =
     (case e_message filtered of
        None \<Rightarrow> []
      | Some message \<Rightarrow>
          if m_role message = Some Assistant
          then (case m_content message of
                  Some (CBlocks blocks) \<Rightarrow>
                    filter (\<lambda>b. b_type b = Tool_use \<and> truthy_str (b_name b)) blocks
                | _ \<Rightarrow> [])
          else [])"

text \<open>The tool invocations of a session: those of the surviving entries of its transcript.\<close>

definition sessionToolBlocks ::
  "string \<Rightarrow> (string \<Rightarrow> TranscriptEntry option) \<Rightarrow> (string \<Rightarrow> string option) \<Rightarrow>
   SessionInfo \<Rightarrow> string \<Rightarrow> PrivacyConfig \<Rightarrow> ContentBlock list" where
  "sessionToolBlocks home parse fs session projectsDir privacy =
     (case fs (sessionFilePath projectsDir (s_project session) (s_sessionId session)) of
        None \<Rightarrow> []
      | Some text \<Rightarrow>
          concat (map entryToolBlocks (survivingEntries home parse privacy (split [CHR 0x0A] text))))"

definition sessionToolCalls ::
  "string \<Rightarrow> (string \<Rightarrow> TranscriptEntry option) \<Rightarrow> (string \<Rightarrow> string option) \<Rightarrow>
   SessionInfo \<Rightarrow> string \<Rightarrow> PrivacyConfig \<Rightarrow> ToolCallSummary list" where
  "sessionToolCalls home parse fs session projectsDir privacy =
     (case fs (sessionFilePath projectsDir (s_project session) (s_sessionId session)) of
        None \<Rightarrow> []
      | Some text \<Rightarrow>
          concat (map entryToolCalls (survivingEntries home parse privacy (split [CHR 0x0A] text))))"

section \<open>Example inputs\<close>

text \<open>The calendar of a machine on UTC, on the timestamps of February 2026.\<close>

definition utc_feb2026 :: Calendar where
  "utc_feb2026 = \<lparr>getFullYear = (\<lambda>t. 2026), getMonth = (\<lambda>t. 1),
                   getDate = (\<lambda>t. (t - 1769904000000) div 86400000 + 1)\<rparr>"

definition row1 :: HistoryEntry where
  "row1 = \<lparr>h_display = ''open /Users/alice/work/app/src/main.ts'', h_timestamp = 1770631200000,
           h_project = ''/Users/alice/work/app'', h_sessionId = ''s1''\<rparr>"

definition row2 :: HistoryEntry where
  "row2 = \<lparr>h_display = ''[redacted]'', h_timestamp = 1770627600000,
           h_project = ''/Users/alice/work/lib'', h_sessionId = ''s2''\<rparr>"

definition row3 :: HistoryEntry where
  "row3 = \<lparr>h_display = ''run the tests'', h_timestamp = 1770631500000,
           h_project = ''/Users/alice/work/app'', h_sessionId = ''s1''\<rparr>"

definition row4 :: HistoryEntry where
  "row4 = \<lparr>h_display = ''old prompt'', h_timestamp = 1770000000000,
           h_project = ''/Users/alice/work/app'', h_sessionId = ''s0''\<rparr>"

text \<open>A parser that knows four lines; every other line is malformed.\<close>

definition parse_rows :: "string \<Rightarrow> HistoryEntry option" where
  "parse_rows = map_of [(''{row1}'', row1), (''{row2}'', row2), (''{row3}'', row3), (''{row4}'', row4)]"

definition log_text :: string where
  "log_text = ''{row1}'' @ [CHR 0x0A] @ ''{row2}'' @ [CHR 0x0A] @ ''{not json'' @ [CHR 0x0A]
              @ ''{row4}'' @ [CHR 0x0A] @ ''{row3}'' @ [CHR 0x0A]"

definition log_text_clean :: string where
  "log_text_clean = ''{row1}'' @ [CHR 0x0A] @ ''{row2}'' @ [CHR 0x0A]
              @ ''{row4}'' @ [CHR 0x0A] @ ''{row3}'' @ [CHR 0x0A]"

definition history_path :: string where
  "history_path = ''/Users/alice/.claude/history.jsonl''"

definition log_fs :: "string \<Rightarrow> string option" where
  "log_fs = map_of [(history_path, log_text)]"

text \<open>A user prompt with string content, and one whose content is an array of blocks.\<close>

definition text_block :: "string \<Rightarrow> ContentBlock" where
  "text_block t = \<lparr>b_type = Text, b_text = Some t, b_thinking = None, b_name = None, b_id = None,
                   b_tool_use_id = None, b_input = None, b_content = None\<rparr>"

definition user_message :: "Content \<Rightarrow> Message" where
  "user_message c = \<lparr>m_role = Some User, m_content = Some c, m_model = None, m_usage = None\<rparr>"

definition entry_of :: "Message \<Rightarrow> TranscriptEntry" where
  "entry_of m = \<lparr>e_type = Some ''user'', e_message = Some m,
                 e_timestamp = Some ''2026-02-09T10:00:00.000Z'', e_gitBranch = Some ''main'',
                 e_planContent = None, e_cwd = Some ''/Users/alice/work/app'',
                 e_sessionId = Some ''s1'', e_isSidechain = Some False, e_parentUuid = None,
                 e_uuid = Some ''u1'', e_toolUseResult = None\<rparr>"

definition user_string_entry :: TranscriptEntry where
  "user_string_entry = entry_of (user_message (CString ''deploy to prod-7''))"

definition user_blocks_entry :: TranscriptEntry where
  "user_blocks_entry = entry_of (user_message (CBlocks [text_block ''deploy to prod-7'']))"

text \<open>A session of the history index and its transcript of four lines, one of them malformed.\<close>

definition view_s1 :: SessionInfo where
  "view_s1 = \<lparr>s_sessionId = ''s1'', s_project = ''/Users/alice/work/app'', s_projectName = ''app'',
      s_prompts = [''open /Users/alice/work/app/src/main.ts'', ''run the tests''],
      s_promptTimestamps = [1770631200000, 1770631500000],
      s_timeRange = \<lparr>tr_start = 1770631200000, tr_end = 1770631500000\<rparr>\<rparr>"

definition block_of :: "BlockType \<Rightarrow> ContentBlock" where
  "block_of t = \<lparr>b_type = t, b_text = None, b_thinking = None, b_name = None, b_id = None,
                 b_tool_use_id = None, b_input = None, b_content = None\<rparr>"

definition tool_use :: "string \<Rightarrow> (string \<times> jval) list \<Rightarrow> ContentBlock" where
  "tool_use name input = (block_of Tool_use)\<lparr>b_name := Some name, b_input := Some input\<rparr>"

definition tool_result_entry :: TranscriptEntry where
  "tool_result_entry =
     (entry_of \<lparr>m_role = Some User,
                m_content = Some (CBlocks [(block_of Tool_result)\<lparr>b_tool_use_id := Some ''t1'',
                                             b_content := Some (JStr ''export const x = 1'')\<rparr>]),
                m_model = Some ''claude-opus-4-6'',
                m_usage = Some \<lparr>input_tokens = Some 70, output_tokens = Some 5,
                                cache_creation_input_tokens = Some 3,
                                cache_read_input_tokens = None\<rparr>\<rparr>)
       \<lparr>e_gitBranch := Some ''feature/x'', e_toolUseResult := Some (JStr ''export const x = 1'')\<rparr>"

definition assistant_entry :: TranscriptEntry where
  "assistant_entry =
     (entry_of \<lparr>m_role = Some Assistant,
                m_content = Some (CBlocks
                  [(block_of Thinking)\<lparr>b_thinking := Some ''the user wants the entry point''\<rparr>,
                   text_block ''I will read the entry point and then run the tests.'',
                   tool_use ''Read'' [(''file_path'', JStr ''/Users/alice/work/app/src/main.ts'')],
                   tool_use ''Bash'' [(''command'', JStr ''bun test'')]]),
                m_model = Some ''claude-sonnet-4-5-20250929'',
                m_usage = Some \<lparr>input_tokens = Some 1000, output_tokens = Some 200,
                                cache_creation_input_tokens = Some 50,
                                cache_read_input_tokens = Some 4000\<rparr>\<rparr>)
       \<lparr>e_type := Some ''assistant''\<rparr>"

text \<open>
  An assistant message that reads one file twice and another file once, searches the web
  twice with different queries and edits two different notebooks.
\<close>

definition tools_entry :: TranscriptEntry where
  "tools_entry =
     (entry_of \<lparr>m_role = Some Assistant,
                m_content = Some (CBlocks
                  [tool_use ''Read'' [(''file_path'', JStr ''/Users/alice/work/app/src/main.ts'')],
                   tool_use ''Read'' [(''file_path'', JStr ''/Users/alice/work/app/src/main.ts'')],
                   tool_use ''Read'' [(''file_path'', JStr ''/Users/alice/work/app/src/util.ts'')],
                   tool_use ''WebSearch'' [(''query'', JStr ''isabelle record package'')],
                   tool_use ''WebSearch'' [(''query'', JStr ''bun test runner'')],
                   tool_use ''NotebookEdit'' [(''notebook_path'', JStr ''/Users/alice/nb/a.ipynb'')],
                   tool_use ''NotebookEdit'' [(''notebook_path'', JStr ''/Users/alice/nb/b.ipynb'')]]),
                m_model = Some ''claude-sonnet-4-5-20250929'', m_usage = None\<rparr>)
       \<lparr>e_type := Some ''assistant''\<rparr>"

definition parse_transcript :: "string \<Rightarrow> TranscriptEntry option" where
  "parse_transcript = map_of [(''{tool-result}'', tool_result_entry), (''{user}'', user_string_entry),
                              (''{assistant}'', assistant_entry), (''{tools}'', tools_entry)]"

definition tools_fs :: "string \<Rightarrow> string option" where
  "tools_fs =
     map_of [(''/Users/alice/.claude/projects/-Users-alice-work-app/s1.jsonl'', ''{tools}'')]"

definition transcript_text :: string where
  "transcript_text = ''{tool-result}'' @ [CHR 0x0A] @ ''{user}'' @ [CHR 0x0A] @ ''{assist'' @ [CHR 0x0A]
                     @ ''{assistant}'' @ [CHR 0x0A]"

definition transcript_text_clean :: string where
  "transcript_text_clean = ''{tool-result}'' @ [CHR 0x0A] @ ''{user}'' @ [CHR 0x0A]
                     @ ''{assistant}'' @ [CHR 0x0A]"

definition projects_dir :: string where
  "projects_dir = ''/Users/alice/.claude/projects''"

definition session_fs :: "string \<Rightarrow> string option" where
  "session_fs = map_of [(''/Users/alice/.claude/projects/-Users-alice-work-app/s1.jsonl'', transcript_text)]"


text \<open>A transcript that holds the tool-result line only.\<close>

definition tool_result_fs :: "string \<Rightarrow> string option" where
  "tool_result_fs =
     map_of [(''/Users/alice/.claude/projects/-Users-alice-work-app/s1.jsonl'', ''{tool-result}'')]"


text \<open>Sessions for the hour estimate: prompts at 0, 5 and 40 minutes; one prompt; none.\<close>

definition three_prompts :: SessionInfo where
  "three_prompts = view_s1\<lparr>s_promptTimestamps := [1770633600000, 1770631200000, 1770631500000],
                           s_timeRange := \<lparr>tr_start = 1770631200000, tr_end = 1770633600000\<rparr>\<rparr>"

definition one_prompt :: SessionInfo where
  "one_prompt = view_s1\<lparr>s_promptTimestamps := [1770631200000],
                        s_timeRange := \<lparr>tr_start = 1770631200000, tr_end = 1770638400000\<rparr>\<rparr>"

definition no_prompt :: SessionInfo where
  "no_prompt = view_s1\<lparr>s_prompts := [], s_promptTimestamps := [],
                       s_timeRange := \<lparr>tr_start = 1770631200000, tr_end = 1770631800000\<rparr>\<rparr>"


text \<open>
  A session of a million input tokens, on a model of the table, on an unknown model and on
  the empty model id; and a table that was given an entry for the empty id.
\<close>

definition million_input :: "string option \<Rightarrow> SessionMeta" where
  "million_input model_id = (initialMeta view_s1)\<lparr>model := model_id, totalInputTokens := 1000000\<rparr>"

definition flat_rates :: ModelPricing where
  "flat_rates = \<lparr>p_input = 1, p_output = 1, p_cacheWrite = 1, p_cacheRead = 1\<rparr>"

definition pricing_with_empty_id :: "string \<rightharpoonup> ModelPricing" where
  "pricing_with_empty_id = setPricing [[] \<mapsto> flat_rates]"


section \<open>Lemmas on strings\<close>

text \<open>A split has at least one piece, so its first and its last piece exist.\<close>

lemma split_go_nonempty: "split_go sep k cur s \<noteq> []"
  by (induction sep k cur s rule: split_go.induct) auto

lemma split_nonempty: "split sep s \<noteq> []"
  by (simp add: split_def split_go_nonempty)

section \<open>Lemmas on the history scan\<close>

lemma scanHistory_accepted:
  "scanHistory cal parse from to privacy lines entries =
     entries @ List.map_filter (acceptedLine cal parse from to privacy) lines"
  by (induction lines arbitrary: entries)
     (auto simp: Let_def acceptedLine_def in_window_def split: option.splits)

lemma groupEntries_distinct:
  "distinct (map fst m) \<Longrightarrow> distinct (map fst (groupEntries home privacy es m))"
  by (induction es arbitrary: m) (auto simp: Let_def distinct_update split: option.splits)

lemma groupEntries_map_of:
  "map_of (groupEntries home privacy es m) sid =
     grouped home privacy (map_of m sid) (filter (\<lambda>e. h_sessionId e = sid) es)"
proof (induction es arbitrary: m)
  case Nil
  then show ?case by (simp add: grouped_def split: option.splits)
next
  case (Cons e es)
  show ?case
    by (cases "map_of m (h_sessionId e)")
       (auto simp: Cons Let_def update_conv' grouped_def split: option.splits list.splits)
qed

lemma accepted_in_window:
  "e \<in> set (acceptedEntries cal parse fs historyFile from to privacy) \<Longrightarrow>
   in_window cal from to (h_timestamp e)"
  by (auto simp: acceptedEntries_def acceptedLine_def List.map_filter_def
           split: option.splits if_splits)

text \<open>The views of \<open>readHistory\<close> are the groups of the accepted rows, sorted.\<close>

lemma readHistory_sorted_groups:
  "readHistory cal home parse fs historyFile from to privacy =
     sort_key (\<lambda>s. tr_start (s_timeRange s))
       (map toSessionInfo
          (groupEntries home privacy (acceptedEntries cal parse fs historyFile from to privacy) []))"
  by (simp add: readHistory_def acceptedEntries_def scanHistory_accepted Let_def split: option.splits)

lemma distinct_map_sort_key: "distinct (map g (sort_key k xs)) = distinct (map g xs)"
  by (simp add: distinct_map)

lemma sessionIds_of_groups: "map s_sessionId (map toSessionInfo m) = map fst m"
  by (simp add: toSessionInfo_def)

lemma readHistory_distinct:
  "distinct (map s_sessionId (readHistory cal home parse fs historyFile from to privacy))"
proof -
  let ?m = "groupEntries home privacy (acceptedEntries cal parse fs historyFile from to privacy) []"
  have d: "distinct (map fst ?m)" by (rule groupEntries_distinct) simp
  then have "distinct (map s_sessionId (map toSessionInfo ?m))"
    by (simp only: sessionIds_of_groups)
  then show ?thesis
    unfolding readHistory_sorted_groups by (simp only: distinct_map_sort_key)
qed

lemma readHistory_view:
  assumes "v \<in> set (readHistory cal home parse fs historyFile from to privacy)"
  shows "\<exists>e es. filter (\<lambda>e. h_sessionId e = s_sessionId v)
                  (acceptedEntries cal parse fs historyFile from to privacy) = e # es \<and>
           s_project v = h_project e \<and>
           s_prompts v = map (promptDisplay home privacy) (e # es) \<and>
           s_promptTimestamps v = map h_timestamp (e # es) \<and>
           s_timeRange v = \<lparr>tr_start = Math_min (map h_timestamp (e # es)),
                            tr_end = Math_max (map h_timestamp (e # es))\<rparr>"
proof -
  let ?A = "acceptedEntries cal parse fs historyFile from to privacy"
  let ?m = "groupEntries home privacy ?A []"
  from assms obtain sid d where m: "(sid, d) \<in> set ?m" and v: "v = toSessionInfo (sid, d)"
    unfolding readHistory_sorted_groups by auto
  have "distinct (map fst ?m)" by (rule groupEntries_distinct) simp
  with m have "map_of ?m sid = Some d" by simp
  then have g: "grouped home privacy None (filter (\<lambda>e. h_sessionId e = sid) ?A) = Some d"
    by (simp add: groupEntries_map_of)
  have sid: "s_sessionId v = sid" by (simp add: v toSessionInfo_def)
  from g obtain e es where f: "filter (\<lambda>e. h_sessionId e = sid) ?A = e # es"
    and d: "d = \<lparr>d_project = h_project e,
                 d_prompts = map (promptDisplay home privacy) (e # es),
                 d_timestamps = map h_timestamp (e # es)\<rparr>"
    by (auto simp: grouped_def split: list.splits)
  show ?thesis
    unfolding sid using f by (simp add: v d toSessionInfo_def)
qed

lemma readHistory_has_view:
  assumes "e \<in> set (acceptedEntries cal parse fs historyFile from to privacy)"
  shows "h_sessionId e \<in> set (map s_sessionId (readHistory cal home parse fs historyFile from to privacy))"
proof -
  let ?A = "acceptedEntries cal parse fs historyFile from to privacy"
  let ?m = "groupEntries home privacy ?A []"
  have "filter (\<lambda>e'. h_sessionId e' = h_sessionId e) ?A \<noteq> []"
    using assms by (auto simp: filter_empty_conv)
  then have "map_of ?m (h_sessionId e) \<noteq> None"
    by (auto simp: groupEntries_map_of grouped_def split: list.splits)
  then have "h_sessionId e \<in> fst ` set ?m"
    by (metis map_of_eq_None_iff)
  then have "h_sessionId e \<in> set (map fst ?m)"
    by simp
  then have "h_sessionId e \<in> set (map s_sessionId (map toSessionInfo ?m))"
    by (simp only: sessionIds_of_groups)
  moreover have "set (map g (sort_key k xs)) = set (map g xs)" for g :: "SessionInfo \<Rightarrow> string"
      and k :: "SessionInfo \<Rightarrow> int" and xs
    by simp
  ultimately show ?thesis
    unfolding readHistory_sorted_groups by blast
qed

text \<open>Every view has a prompt timestamp, so the minimum and the maximum are taken of a list that is not empty.\<close>

lemma readHistory_timestamps_nonempty:
  "v \<in> set (readHistory cal home parse fs historyFile from to privacy) \<Longrightarrow>
   s_promptTimestamps v \<noteq> []"
  using readHistory_view [of v cal home parse fs historyFile "from" to privacy] by auto

lemma example_accepted_local:
  "acceptedEntries utc_feb2026 parse_rows log_fs history_path ''2026-02-09'' ''2026-02-09''
     LOCAL_PROFILE = [row1, row2, row3]"
  by code_simp

lemma example_accepted_strict:
  "acceptedEntries utc_feb2026 parse_rows log_fs history_path ''2026-02-09'' ''2026-02-09''
     STRICT_PROFILE = [row1, row2, row3]"
  by code_simp

section \<open>Session views of the history index\<close>

text \<open>
  C7. For every event log and date window: the session id of every accepted row is the id
  of exactly one view returned by \<open>readHistory\<close>; the prompt timestamps and the prompts
  of a view are those of the accepted rows of its session, in order of arrival, and every
  accepted row is dated in the window, so that a row dated outside the window contributes
  to no view; and the views are sorted ascending by the start of their time range.
\<close>

theorem C7_one_view_per_session_in_window_sorted:
  fixes cal home parse fs historyFile "from" to privacy
  defines "R \<equiv> readHistory cal home parse fs historyFile from to privacy"
    and "A \<equiv> acceptedEntries cal parse fs historyFile from to privacy"
  shows "(\<forall>e \<in> set A. \<exists>!i. i < length R \<and> s_sessionId (R ! i) = h_sessionId e) \<and>
         (\<forall>v \<in> set R. s_promptTimestamps v =
              map h_timestamp (filter (\<lambda>e. h_sessionId e = s_sessionId v) A)) \<and>
         (\<forall>v \<in> set R. s_prompts v =
              map (promptDisplay home privacy) (filter (\<lambda>e. h_sessionId e = s_sessionId v) A)) \<and>
         (\<forall>e \<in> set A. in_window cal from to (h_timestamp e)) \<and>
         (\<forall>v \<in> set R. \<forall>t \<in> set (s_promptTimestamps v). in_window cal from to t) \<and>
         sorted (map (\<lambda>s. tr_start (s_timeRange s)) R)"
proof (intro conjI ballI)
  fix e assume e: "e \<in> set A"
  have "\<exists>!i. i < length (map s_sessionId R) \<and> map s_sessionId R ! i = h_sessionId e"
    using readHistory_distinct readHistory_has_view e unfolding R_def A_def
    by (intro distinct_Ex1)
  then show "\<exists>!i. i < length R \<and> s_sessionId (R ! i) = h_sessionId e"
    by (auto cong: conj_cong)
next
  fix v assume v: "v \<in> set R"
  from readHistory_view [OF v [unfolded R_def]]
  show ts: "s_promptTimestamps v = map h_timestamp (filter (\<lambda>e. h_sessionId e = s_sessionId v) A)"
    unfolding A_def by auto
  fix t assume "t \<in> set (s_promptTimestamps v)"
  with ts obtain e where "e \<in> set A" "h_timestamp e = t" by auto
  then show "in_window cal from to t"
    using accepted_in_window unfolding A_def by blast
next
  fix v assume v: "v \<in> set R"
  from readHistory_view [OF v [unfolded R_def]]
  show "s_prompts v =
          map (promptDisplay home privacy) (filter (\<lambda>e. h_sessionId e = s_sessionId v) A)"
    unfolding A_def by auto
next
  fix e assume "e \<in> set A"
  then show "in_window cal from to (h_timestamp e)"
    using accepted_in_window unfolding A_def by blast
next
  show "sorted (map (\<lambda>s. tr_start (s_timeRange s)) R)"
    unfolding R_def readHistory_sorted_groups by (rule sorted_sort_key)
qed

lemma example_views_local:
  "readHistory utc_feb2026 ''/Users/alice'' parse_rows log_fs history_path ''2026-02-09'' ''2026-02-09''
     LOCAL_PROFILE =
   [\<lparr>s_sessionId = ''s2'', s_project = ''/Users/alice/work/lib'', s_projectName = ''lib'',
      s_prompts = [''[redacted]''], s_promptTimestamps = [1770627600000],
      s_timeRange = \<lparr>tr_start = 1770627600000, tr_end = 1770627600000\<rparr>\<rparr>,
    \<lparr>s_sessionId = ''s1'', s_project = ''/Users/alice/work/app'', s_projectName = ''app'',
      s_prompts = [''open /Users/alice/work/app/src/main.ts'', ''run the tests''],
      s_promptTimestamps = [1770631200000, 1770631500000],
      s_timeRange = \<lparr>tr_start = 1770631200000, tr_end = 1770631500000\<rparr>\<rparr>]"
  by code_simp

theorem C7_witness:
  "row3 \<in> set (acceptedEntries utc_feb2026 parse_rows log_fs history_path ''2026-02-09'' ''2026-02-09''
                  LOCAL_PROFILE) \<and>
   (\<exists>!i. i < length (readHistory utc_feb2026 ''/Users/alice'' parse_rows log_fs history_path
                        ''2026-02-09'' ''2026-02-09'' LOCAL_PROFILE) \<and>
          s_sessionId (readHistory utc_feb2026 ''/Users/alice'' parse_rows log_fs history_path
                        ''2026-02-09'' ''2026-02-09'' LOCAL_PROFILE ! i) = ''s1'') \<and>
   in_window utc_feb2026 ''2026-02-09'' ''2026-02-09'' 1770631500000 \<and>
   map s_promptTimestamps (readHistory utc_feb2026 ''/Users/alice'' parse_rows log_fs history_path
                        ''2026-02-09'' ''2026-02-09'' LOCAL_PROFILE)
     = [[1770627600000], [1770631200000, 1770631500000]] \<and>
   sorted (map (\<lambda>s. tr_start (s_timeRange s))
            (readHistory utc_feb2026 ''/Users/alice'' parse_rows log_fs history_path
               ''2026-02-09'' ''2026-02-09'' LOCAL_PROFILE))"
proof -
  note c7 = C7_one_view_per_session_in_window_sorted
    [of utc_feb2026 parse_rows log_fs history_path "''2026-02-09''" "''2026-02-09''" LOCAL_PROFILE
        "''/Users/alice''"]
  have r3: "row3 \<in> set (acceptedEntries utc_feb2026 parse_rows log_fs history_path
                          ''2026-02-09'' ''2026-02-09'' LOCAL_PROFILE)"
    by (simp add: example_accepted_local)
  have "h_sessionId row3 = ''s1''" "h_timestamp row3 = 1770631500000"
    by (simp_all add: row3_def)
  with c7 r3 show ?thesis
    by (auto simp: example_views_local)
qed

section \<open>Project-path round trip\<close>

lemma decode_encode_no_dash:
  "CHR ''-'' \<notin> set p \<Longrightarrow> decodeProjectPath (encodeProjectPath p) = p"
  by (induction p) (auto simp: encodeProjectPath_def decodeProjectPath_def)

lemma decode_has_no_dash: "CHR ''-'' \<notin> set (decodeProjectPath e)"
  by (auto simp: decodeProjectPath_def)

text \<open>
  C9. For every project path with no literal dash, decoding the encoded path gives the
  path back; and some path with a dash is not recovered. In fact no path with a dash is
  recovered, since the decoded text never contains a dash.
\<close>

theorem C9_roundtrip_lossy_on_dashes:
  "(\<forall>p. CHR ''-'' \<notin> set p \<longrightarrow> decodeProjectPath (encodeProjectPath p) = p) \<and>
   (\<exists>p. CHR ''-'' \<in> set p \<and> decodeProjectPath (encodeProjectPath p) \<noteq> p) \<and>
   (\<forall>p. CHR ''-'' \<in> set p \<longrightarrow> decodeProjectPath (encodeProjectPath p) \<noteq> p)"
proof (intro conjI allI impI)
  fix p :: string
  assume "CHR ''-'' \<notin> set p"
  then show "decodeProjectPath (encodeProjectPath p) = p"
    by (rule decode_encode_no_dash)
next
  have "CHR ''-'' \<in> set ''/work/my-app''" by simp
  moreover have "decodeProjectPath (encodeProjectPath ''/work/my-app'') \<noteq> ''/work/my-app''"
    by (simp add: encodeProjectPath_def decodeProjectPath_def)
  ultimately show "\<exists>p. CHR ''-'' \<in> set p \<and> decodeProjectPath (encodeProjectPath p) \<noteq> p"
    by blast
next
  fix p :: string
  assume d: "CHR ''-'' \<in> set p"
  show "decodeProjectPath (encodeProjectPath p) \<noteq> p"
  proof
    assume "decodeProjectPath (encodeProjectPath p) = p"
    with decode_has_no_dash [of "encodeProjectPath p"] d show False by simp
  qed
qed

theorem C9_roundtrip_witness:
  "CHR ''-'' \<notin> set ''/Users/kr/app'' \<and>
   decodeProjectPath (encodeProjectPath ''/Users/kr/app'') = ''/Users/kr/app'' \<and>
   CHR ''-'' \<in> set ''/work/my-app'' \<and>
   decodeProjectPath (encodeProjectPath ''/work/my-app'') \<noteq> ''/work/my-app''"
  using C9_roundtrip_lossy_on_dashes by simp

section \<open>Prompts under the strict profile\<close>

lemma strict_flags:
  "redactPrompts STRICT_PROFILE" "stripToolResults STRICT_PROFILE"
  by (simp_all add: STRICT_PROFILE_def SHAREABLE_PROFILE_def LOCAL_PROFILE_def)

lemma promptDisplay_strict: "promptDisplay home STRICT_PROFILE e = ''[redacted]''"
  by (simp add: promptDisplay_def strict_flags)

lemma map_promptDisplay_strict:
  "map (promptDisplay home STRICT_PROFILE) es = replicate (length es) ''[redacted]''"
  by (induction es) (simp_all add: promptDisplay_strict)

text \<open>
  C1, as amended. Under the strict profile the prompt text \<open>readHistory\<close> stores for every
  accepted row is the fixed marker \<^verbatim>\<open>[redacted]\<close>, one marker per row in the view of the
  row's session; and \<open>filterTranscriptEntry\<close> suppresses a user-role entry with string
  content that carries a tool result, and returns any other one with its content replaced by
  the marker. The returned text therefore differs from the source text unless the source
  text is the marker itself.
\<close>

theorem C1_strict_prompt_is_marker:
  fixes cal home parse fs historyFile "from" to
  defines "R \<equiv> readHistory cal home parse fs historyFile from to STRICT_PROFILE"
    and "A \<equiv> acceptedEntries cal parse fs historyFile from to STRICT_PROFILE"
  shows "(\<forall>e \<in> set A. \<exists>v \<in> set R. s_sessionId v = h_sessionId e \<and>
            s_prompts v =
              replicate (length (filter (\<lambda>e'. h_sessionId e' = h_sessionId e) A)) ''[redacted]'') \<and>
         (\<forall>entry message c.
            e_message entry = Some message \<and> m_role message = Some User \<and>
            m_content message = Some (CString c) \<longrightarrow>
            filterTranscriptEntry home entry STRICT_PROFILE =
              (if e_toolUseResult entry \<noteq> None then None
               else Some (entry\<lparr>e_message :=
                      Some (message\<lparr>m_content := Some (CString ''[redacted]'')\<rparr>)\<rparr>)))"
proof (intro conjI ballI allI impI)
  fix e assume e: "e \<in> set A"
  from readHistory_has_view [OF e [unfolded A_def], of home]
  obtain v where v: "v \<in> set R" and sid: "s_sessionId v = h_sessionId e"
    unfolding R_def by auto
  from readHistory_view [OF v [unfolded R_def]] obtain e' es where
    f: "filter (\<lambda>e. h_sessionId e = s_sessionId v) A = e' # es"
    and p: "s_prompts v = map (promptDisplay home STRICT_PROFILE) (e' # es)"
    unfolding A_def by blast
  have "s_prompts v = replicate (length (e' # es)) ''[redacted]''"
    unfolding p by (rule map_promptDisplay_strict)
  with f sid have "s_prompts v =
      replicate (length (filter (\<lambda>e'. h_sessionId e' = h_sessionId e) A)) ''[redacted]''"
    by simp
  with v sid show "\<exists>v \<in> set R. s_sessionId v = h_sessionId e \<and>
            s_prompts v =
              replicate (length (filter (\<lambda>e'. h_sessionId e' = h_sessionId e) A)) ''[redacted]''"
    by blast
next
  fix entry :: TranscriptEntry and message :: Message and c :: string
  assume "e_message entry = Some message \<and> m_role message = Some User \<and>
            m_content message = Some (CString c)"
  then show "filterTranscriptEntry home entry STRICT_PROFILE =
              (if e_toolUseResult entry \<noteq> None then None
               else Some (entry\<lparr>e_message :=
                      Some (message\<lparr>m_content := Some (CString ''[redacted]'')\<rparr>)\<rparr>))"
    by (simp add: filterTranscriptEntry_def strict_flags)
qed

lemma example_views_strict:
  "readHistory utc_feb2026 ''/Users/alice'' parse_rows log_fs history_path ''2026-02-09'' ''2026-02-09''
     STRICT_PROFILE =
   [\<lparr>s_sessionId = ''s2'', s_project = ''/Users/alice/work/lib'', s_projectName = ''lib'',
      s_prompts = [''[redacted]''], s_promptTimestamps = [1770627600000],
      s_timeRange = \<lparr>tr_start = 1770627600000, tr_end = 1770627600000\<rparr>\<rparr>,
    \<lparr>s_sessionId = ''s1'', s_project = ''/Users/alice/work/app'', s_projectName = ''app'',
      s_prompts = [''[redacted]'', ''[redacted]''],
      s_promptTimestamps = [1770631200000, 1770631500000],
      s_timeRange = \<lparr>tr_start = 1770631200000, tr_end = 1770631500000\<rparr>\<rparr>]"
  by code_simp

text \<open>
  C1 as stated fails. A history row whose display text is already \<^verbatim>\<open>[redacted]\<close> is returned
  with the same text; and a user-role entry whose content is an array of blocks is returned
  unchanged, its text included.
\<close>

theorem C1_counterexample:
  "row2 \<in> set (acceptedEntries utc_feb2026 parse_rows log_fs history_path ''2026-02-09'' ''2026-02-09''
                  STRICT_PROFILE) \<and>
   s_sessionId (readHistory utc_feb2026 ''/Users/alice'' parse_rows log_fs history_path
                  ''2026-02-09'' ''2026-02-09'' STRICT_PROFILE ! 0) = h_sessionId row2 \<and>
   s_prompts (readHistory utc_feb2026 ''/Users/alice'' parse_rows log_fs history_path
                ''2026-02-09'' ''2026-02-09'' STRICT_PROFILE ! 0) = [h_display row2] \<and>
   m_role (user_message (CBlocks [text_block ''deploy to prod-7''])) = Some User \<and>
   filterTranscriptEntry ''/Users/alice'' user_blocks_entry STRICT_PROFILE = Some user_blocks_entry"
  by (simp add: example_accepted_strict example_views_strict row2_def
        filterTranscriptEntry_def user_blocks_entry_def entry_of_def user_message_def strict_flags)

theorem C1_witness:
  "row1 \<in> set (acceptedEntries utc_feb2026 parse_rows log_fs history_path ''2026-02-09'' ''2026-02-09''
                  STRICT_PROFILE) \<and>
   (\<exists>v \<in> set (readHistory utc_feb2026 ''/Users/alice'' parse_rows log_fs history_path
                  ''2026-02-09'' ''2026-02-09'' STRICT_PROFILE).
      s_sessionId v = ''s1'' \<and> s_prompts v = [''[redacted]'', ''[redacted]'']) \<and>
   filterTranscriptEntry ''/Users/alice'' user_string_entry STRICT_PROFILE =
     Some (entry_of (user_message (CString ''[redacted]'')))"
proof -
  note c1 = C1_strict_prompt_is_marker
    [of utc_feb2026 parse_rows log_fs history_path "''2026-02-09''" "''2026-02-09''"
        "''/Users/alice''"]
  have r1: "row1 \<in> set (acceptedEntries utc_feb2026 parse_rows log_fs history_path
                          ''2026-02-09'' ''2026-02-09'' STRICT_PROFILE)"
    by (simp add: example_accepted_strict)
  have m: "e_message user_string_entry = Some (user_message (CString ''deploy to prod-7'')) \<and>
           m_role (user_message (CString ''deploy to prod-7'')) = Some User \<and>
           m_content (user_message (CString ''deploy to prod-7'')) = Some (CString ''deploy to prod-7'')"
    and t: "e_toolUseResult user_string_entry = None"
    by (simp_all add: user_string_entry_def entry_of_def user_message_def)
  from c1 [THEN conjunct2, rule_format, of user_string_entry
            "user_message (CString ''deploy to prod-7'')" "''deploy to prod-7''"] m t
  have "filterTranscriptEntry ''/Users/alice'' user_string_entry STRICT_PROFILE =
      Some (user_string_entry\<lparr>e_message := Some ((user_message (CString ''deploy to prod-7''))
              \<lparr>m_content := Some (CString ''[redacted]'')\<rparr>)\<rparr>)"
    by simp
  then have f: "filterTranscriptEntry ''/Users/alice'' user_string_entry STRICT_PROFILE =
     Some (entry_of (user_message (CString ''[redacted]'')))"
    by (simp add: user_string_entry_def entry_of_def user_message_def)
  from c1 r1 have "\<exists>v \<in> set (readHistory utc_feb2026 ''/Users/alice'' parse_rows log_fs history_path
                  ''2026-02-09'' ''2026-02-09'' STRICT_PROFILE).
      s_sessionId v = h_sessionId row1 \<and>
      s_prompts v = replicate (length (filter (\<lambda>e'. h_sessionId e' = h_sessionId row1)
          (acceptedEntries utc_feb2026 parse_rows log_fs history_path
                          ''2026-02-09'' ''2026-02-09'' STRICT_PROFILE))) ''[redacted]''"
    by blast
  then have "\<exists>v \<in> set (readHistory utc_feb2026 ''/Users/alice'' parse_rows log_fs history_path
                  ''2026-02-09'' ''2026-02-09'' STRICT_PROFILE).
      s_sessionId v = ''s1'' \<and> s_prompts v = [''[redacted]'', ''[redacted]'']"
    by (simp add: example_accepted_strict row1_def row2_def row3_def)
  with r1 f show ?thesis by blast
qed

section \<open>Privacy filtering changes the message content only\<close>

text \<open>
  C10. For every transcript entry and privacy configuration, \<open>filterTranscriptEntry\<close>
  returns \<^verbatim>\<open>null\<close>, or the entry itself, or the entry with a new value in the content field of
  its message and every other field of the entry and of the message as it was.
\<close>

theorem C10_frame:
  "filterTranscriptEntry home entry config = None \<or>
   filterTranscriptEntry home entry config = Some entry \<or>
   (\<exists>message content. e_message entry = Some message \<and>
      filterTranscriptEntry home entry config =
        Some (entry\<lparr>e_message := Some (message\<lparr>m_content := content\<rparr>)\<rparr>))"
  by (auto simp: filterTranscriptEntry_def
           split: option.splits Content.splits Role.splits bool.splits)


theorem C10_frame_witness:
  "filterTranscriptEntry ''/Users/alice'' user_string_entry STRICT_PROFILE =
     Some (user_string_entry\<lparr>e_message :=
        Some ((user_message (CString ''deploy to prod-7''))\<lparr>m_content := Some (CString ''[redacted]'')\<rparr>)\<rparr>) \<and>
   e_gitBranch (the (filterTranscriptEntry ''/Users/alice'' user_string_entry STRICT_PROFILE)) =
     e_gitBranch user_string_entry"
  using C10_frame [of "''/Users/alice''" user_string_entry STRICT_PROFILE]
  by (simp add: filterTranscriptEntry_def user_string_entry_def entry_of_def user_message_def strict_flags)


section \<open>Absent files and malformed lines\<close>

lemma scanHistory_skip:
  "parse bad = None \<Longrightarrow>
   scanHistory cal parse from to privacy (pre @ bad # post) entries =
   scanHistory cal parse from to privacy (pre @ post) entries"
  by (induction pre arbitrary: entries) (auto simp: Let_def split: option.splits)

lemma peekLines_skip:
  "parse bad = None \<Longrightarrow>
   peekLines parse (pre @ bad # post) meta = peekLines parse (pre @ post) meta"
  by (induction pre arbitrary: meta) (auto split: option.splits)

lemma parseLines_skip:
  "parse bad = None \<Longrightarrow>
   parseLines home parse privacy (pre @ bad # post) st =
   parseLines home parse privacy (pre @ post) st"
  by (induction pre arbitrary: st) (auto split: option.splits sum.splits)

text \<open>
  C8. A missing log file gives \<open>readHistory\<close> the empty list; a missing transcript file
  gives \<open>peekSession\<close> and \<open>parseSessionDetail\<close> the fields of the input view with every
  other field at its zero value; and in each of the three scans a line that fails to parse
  is skipped: the result on a file is the result on the same file without that line.
\<close>

theorem C8_absent_and_malformed_are_absorbed:
  fixes session :: SessionInfo and projectsDir :: string
  defines "p \<equiv> sessionFilePath projectsDir (s_project session) (s_sessionId session)"
  shows
  "(fs historyFile = None \<longrightarrow> readHistory cal home parseH fs historyFile from to privacy = []) \<and>
   (fs p = None \<longrightarrow>
      peekSession parseT fs session projectsDir privacy =
        \<lparr>s_sessionId = s_sessionId session, s_project = s_project session,
         s_projectName = s_projectName session, s_prompts = s_prompts session,
         s_promptTimestamps = s_promptTimestamps session, s_timeRange = s_timeRange session,
         gitBranch = None, model = None, totalInputTokens = 0, totalOutputTokens = 0,
         cacheCreationInputTokens = 0, cacheReadInputTokens = 0, messageCount = 0\<rparr> \<and>
      parseSessionDetail home parseT fs session projectsDir privacy =
        Inr \<lparr>s_sessionId = s_sessionId session, s_project = s_project session,
             s_projectName = s_projectName session, s_prompts = s_prompts session,
             s_promptTimestamps = s_promptTimestamps session, s_timeRange = s_timeRange session,
             gitBranch = None, model = None, totalInputTokens = 0, totalOutputTokens = 0,
             cacheCreationInputTokens = 0, cacheReadInputTokens = 0, messageCount = 0,
             assistantSummaries = [], toolCalls = [], filesReferenced = [],
             planReferenced = False, thinkingBlockCount = 0, hasSidechains = False\<rparr>) \<and>
   (\<forall>body body' pre bad post.
      split [CHR 0x0A] body = pre @ bad # post \<and> split [CHR 0x0A] body' = pre @ post \<longrightarrow>
      (parseH bad = None \<longrightarrow>
         readHistory cal home parseH (fs(historyFile \<mapsto> body)) historyFile from to privacy =
         readHistory cal home parseH (fs(historyFile \<mapsto> body')) historyFile from to privacy) \<and>
      (parseT bad = None \<longrightarrow>
         peekSession parseT (fs(p \<mapsto> body)) session projectsDir privacy =
         peekSession parseT (fs(p \<mapsto> body')) session projectsDir privacy \<and>
         parseSessionDetail home parseT (fs(p \<mapsto> body)) session projectsDir privacy =
         parseSessionDetail home parseT (fs(p \<mapsto> body')) session projectsDir privacy))"
proof (intro conjI allI impI)
  assume "fs historyFile = None"
  then show "readHistory cal home parseH fs historyFile from to privacy = []"
    by (simp add: readHistory_def)
next
  assume "fs p = None"
  then show "peekSession parseT fs session projectsDir privacy =
        \<lparr>s_sessionId = s_sessionId session, s_project = s_project session,
         s_projectName = s_projectName session, s_prompts = s_prompts session,
         s_promptTimestamps = s_promptTimestamps session, s_timeRange = s_timeRange session,
         gitBranch = None, model = None, totalInputTokens = 0, totalOutputTokens = 0,
         cacheCreationInputTokens = 0, cacheReadInputTokens = 0, messageCount = 0\<rparr>"
    by (simp add: peekSession_def p_def initialMeta_def)
next
  assume "fs p = None"
  then show "parseSessionDetail home parseT fs session projectsDir privacy =
        Inr \<lparr>s_sessionId = s_sessionId session, s_project = s_project session,
             s_projectName = s_projectName session, s_prompts = s_prompts session,
             s_promptTimestamps = s_promptTimestamps session, s_timeRange = s_timeRange session,
             gitBranch = None, model = None, totalInputTokens = 0, totalOutputTokens = 0,
             cacheCreationInputTokens = 0, cacheReadInputTokens = 0, messageCount = 0,
             assistantSummaries = [], toolCalls = [], filesReferenced = [],
             planReferenced = False, thinkingBlockCount = 0, hasSidechains = False\<rparr>"
    by (simp add: parseSessionDetail_def p_def initialDetail_def)
next
  fix body body' :: string and pre post :: "string list" and bad :: string
  assume s: "split [CHR 0x0A] body = pre @ bad # post \<and> split [CHR 0x0A] body' = pre @ post"
  {
    assume "parseH bad = None"
    then show "readHistory cal home parseH (fs(historyFile \<mapsto> body)) historyFile from to privacy =
         readHistory cal home parseH (fs(historyFile \<mapsto> body')) historyFile from to privacy"
      using s by (simp add: readHistory_def scanHistory_skip)
  }
  {
    assume b: "parseT bad = None"
    then show "peekSession parseT (fs(p \<mapsto> body)) session projectsDir privacy =
         peekSession parseT (fs(p \<mapsto> body')) session projectsDir privacy"
      using s by (simp add: peekSession_def p_def peekLines_skip)
    from b show "parseSessionDetail home parseT (fs(p \<mapsto> body)) session projectsDir privacy =
         parseSessionDetail home parseT (fs(p \<mapsto> body')) session projectsDir privacy"
      using s by (simp add: parseSessionDetail_def p_def parseLines_skip)
  }
qed

lemma split_log_text:
  "split [CHR 0x0A] log_text = [''{row1}'', ''{row2}''] @ ''{not json'' # [''{row4}'', ''{row3}'', []]"
  "split [CHR 0x0A] log_text_clean = [''{row1}'', ''{row2}''] @ [''{row4}'', ''{row3}'', []]"
  by (simp_all add: split_def log_text_def log_text_clean_def)

lemma split_transcript_text:
  "split [CHR 0x0A] transcript_text = [''{tool-result}'', ''{user}''] @ ''{assist'' # [''{assistant}'', []]"
  "split [CHR 0x0A] transcript_text_clean = [''{tool-result}'', ''{user}''] @ [''{assistant}'', []]"
  by (simp_all add: split_def transcript_text_def transcript_text_clean_def)


theorem C8_witness:
  "readHistory utc_feb2026 ''/Users/alice'' parse_rows Map.empty history_path
     ''2026-02-09'' ''2026-02-09'' LOCAL_PROFILE = [] \<and>
   messageCount (peekSession parse_transcript Map.empty view_s1 projects_dir LOCAL_PROFILE) = 0 \<and>
   s_prompts (peekSession parse_transcript Map.empty view_s1 projects_dir LOCAL_PROFILE)
     = s_prompts view_s1 \<and>
   map_sum id toolCalls
     (parseSessionDetail ''/Users/alice'' parse_transcript Map.empty view_s1 projects_dir LOCAL_PROFILE)
     = Inr [] \<and>
   parse_rows ''{not json'' = None \<and>
   readHistory utc_feb2026 ''/Users/alice'' parse_rows (Map.empty(history_path \<mapsto> log_text))
     history_path ''2026-02-09'' ''2026-02-09'' LOCAL_PROFILE =
   readHistory utc_feb2026 ''/Users/alice'' parse_rows (Map.empty(history_path \<mapsto> log_text_clean))
     history_path ''2026-02-09'' ''2026-02-09'' LOCAL_PROFILE \<and>
   parse_transcript ''{assist'' = None \<and>
   peekSession parse_transcript
     (Map.empty(sessionFilePath projects_dir (s_project view_s1) (s_sessionId view_s1) \<mapsto> transcript_text))
     view_s1 projects_dir LOCAL_PROFILE =
   peekSession parse_transcript
     (Map.empty(sessionFilePath projects_dir (s_project view_s1) (s_sessionId view_s1) \<mapsto> transcript_text_clean))
     view_s1 projects_dir LOCAL_PROFILE \<and>
   parseSessionDetail ''/Users/alice'' parse_transcript
     (Map.empty(sessionFilePath projects_dir (s_project view_s1) (s_sessionId view_s1) \<mapsto> transcript_text))
     view_s1 projects_dir LOCAL_PROFILE =
   parseSessionDetail ''/Users/alice'' parse_transcript
     (Map.empty(sessionFilePath projects_dir (s_project view_s1) (s_sessionId view_s1) \<mapsto> transcript_text_clean))
     view_s1 projects_dir LOCAL_PROFILE"
proof -
  note c8 = C8_absent_and_malformed_are_absorbed
    [where fs = Map.empty and historyFile = history_path and cal = utc_feb2026
       and home = "''/Users/alice''" and parseH = parse_rows and parseT = parse_transcript
       and ?from = "''2026-02-09''" and to = "''2026-02-09''" and privacy = LOCAL_PROFILE
       and session = view_s1 and projectsDir = projects_dir]
  have n: "parse_rows ''{not json'' = None" "parse_transcript ''{assist'' = None"
    by (simp_all add: parse_rows_def parse_transcript_def)
  from c8 have absent:
    "readHistory utc_feb2026 ''/Users/alice'' parse_rows Map.empty history_path
       ''2026-02-09'' ''2026-02-09'' LOCAL_PROFILE = []"
    "messageCount (peekSession parse_transcript Map.empty view_s1 projects_dir LOCAL_PROFILE) = 0"
    "s_prompts (peekSession parse_transcript Map.empty view_s1 projects_dir LOCAL_PROFILE)
       = s_prompts view_s1"
    "map_sum id toolCalls
       (parseSessionDetail ''/Users/alice'' parse_transcript Map.empty view_s1 projects_dir LOCAL_PROFILE)
       = Inr []"
    by simp_all
  from c8 have skip: "\<And>body body' pre bad post.
      split [CHR 0x0A] body = pre @ bad # post \<and> split [CHR 0x0A] body' = pre @ post \<Longrightarrow>
      (parse_rows bad = None \<longrightarrow>
         readHistory utc_feb2026 ''/Users/alice'' parse_rows (Map.empty(history_path \<mapsto> body))
           history_path ''2026-02-09'' ''2026-02-09'' LOCAL_PROFILE =
         readHistory utc_feb2026 ''/Users/alice'' parse_rows (Map.empty(history_path \<mapsto> body'))
           history_path ''2026-02-09'' ''2026-02-09'' LOCAL_PROFILE) \<and>
      (parse_transcript bad = None \<longrightarrow>
         peekSession parse_transcript
           (Map.empty(sessionFilePath projects_dir (s_project view_s1) (s_sessionId view_s1) \<mapsto> body))
           view_s1 projects_dir LOCAL_PROFILE =
         peekSession parse_transcript
           (Map.empty(sessionFilePath projects_dir (s_project view_s1) (s_sessionId view_s1) \<mapsto> body'))
           view_s1 projects_dir LOCAL_PROFILE \<and>
         parseSessionDetail ''/Users/alice'' parse_transcript
           (Map.empty(sessionFilePath projects_dir (s_project view_s1) (s_sessionId view_s1) \<mapsto> body))
           view_s1 projects_dir LOCAL_PROFILE =
         parseSessionDetail ''/Users/alice'' parse_transcript
           (Map.empty(sessionFilePath projects_dir (s_project view_s1) (s_sessionId view_s1) \<mapsto> body'))
           view_s1 projects_dir LOCAL_PROFILE)"
    by blast
  from skip [of log_text "[''{row1}'', ''{row2}'']" "''{not json''" "[''{row4}'', ''{row3}'', []]"
               log_text_clean] split_log_text n
  have h: "readHistory utc_feb2026 ''/Users/alice'' parse_rows (Map.empty(history_path \<mapsto> log_text))
     history_path ''2026-02-09'' ''2026-02-09'' LOCAL_PROFILE =
   readHistory utc_feb2026 ''/Users/alice'' parse_rows (Map.empty(history_path \<mapsto> log_text_clean))
     history_path ''2026-02-09'' ''2026-02-09'' LOCAL_PROFILE"
    by blast
  from skip [of transcript_text "[''{tool-result}'', ''{user}'']" "''{assist''" "[''{assistant}'', []]"
               transcript_text_clean] split_transcript_text n
  have t: "peekSession parse_transcript
     (Map.empty(sessionFilePath projects_dir (s_project view_s1) (s_sessionId view_s1) \<mapsto> transcript_text))
     view_s1 projects_dir LOCAL_PROFILE =
   peekSession parse_transcript
     (Map.empty(sessionFilePath projects_dir (s_project view_s1) (s_sessionId view_s1) \<mapsto> transcript_text_clean))
     view_s1 projects_dir LOCAL_PROFILE \<and>
   parseSessionDetail ''/Users/alice'' parse_transcript
     (Map.empty(sessionFilePath projects_dir (s_project view_s1) (s_sessionId view_s1) \<mapsto> transcript_text))
     view_s1 projects_dir LOCAL_PROFILE =
   parseSessionDetail ''/Users/alice'' parse_transcript
     (Map.empty(sessionFilePath projects_dir (s_project view_s1) (s_sessionId view_s1) \<mapsto> transcript_text_clean))
     view_s1 projects_dir LOCAL_PROFILE"
    by blast
  from absent n h t show ?thesis by blast
qed

section \<open>Peek mode and the privacy filter\<close>

text \<open>
  C2 does not hold of the code. \<open>peekSession\<close> never calls the privacy filter: on a
  transcript whose only record carries a tool-result payload, with \<open>stripToolResults\<close>
  set, the record is suppressed by \<open>filterTranscriptEntry\<close> and yet adds to the four token
  counts and to the message count and sets the branch and the model. On the same file
  \<open>parseSessionDetail\<close>, which filters first, leaves all of them at their initial values.
\<close>

theorem C2_peek_counts_suppressed_record:
  "stripToolResults LOCAL_PROFILE \<and>
   filterTranscriptEntry ''/Users/alice'' tool_result_entry LOCAL_PROFILE = None \<and>
   peekSession parse_transcript tool_result_fs view_s1 projects_dir LOCAL_PROFILE =
     \<lparr>s_sessionId = ''s1'', s_project = ''/Users/alice/work/app'', s_projectName = ''app'',
      s_prompts = [''open /Users/alice/work/app/src/main.ts'', ''run the tests''],
      s_promptTimestamps = [1770631200000, 1770631500000],
      s_timeRange = \<lparr>tr_start = 1770631200000, tr_end = 1770631500000\<rparr>,
      gitBranch = Some ''feature/x'', model = Some ''claude-opus-4-6'',
      totalInputTokens = 70, totalOutputTokens = 5, cacheCreationInputTokens = 3,
      cacheReadInputTokens = 0, messageCount = 1\<rparr> \<and>
   parseSessionDetail ''/Users/alice'' parse_transcript tool_result_fs view_s1 projects_dir LOCAL_PROFILE =
     Inr (initialDetail view_s1)"
  by code_simp

section \<open>Redaction of history prompts\<close>

text \<open>
  C3 does not hold of the code. \<open>readHistory\<close> calls \<open>redactString\<close> only when the list of
  patterns is not empty. Under the shareable profile, which sets home-directory and
  absolute-path redaction and has no pattern, the stored prompt is the display text as it
  is, while \<open>redactString\<close> of that text replaces the home directory.
\<close>

theorem C3_shareable_prompt_is_raw:
  "redactHomeDir SHAREABLE_PROFILE \<and> redactAbsolutePaths SHAREABLE_PROFILE \<and>
   \<not> redactPrompts SHAREABLE_PROFILE \<and>
   row1 \<in> set (acceptedEntries utc_feb2026 parse_rows log_fs history_path ''2026-02-09''
                  ''2026-02-09'' SHAREABLE_PROFILE) \<and>
   map s_prompts (readHistory utc_feb2026 ''/Users/alice'' parse_rows log_fs history_path
                    ''2026-02-09'' ''2026-02-09'' SHAREABLE_PROFILE) =
     [[''[redacted]''], [h_display row1, ''run the tests'']] \<and>
   h_display row1 = ''open /Users/alice/work/app/src/main.ts'' \<and>
   redactString ''/Users/alice'' (h_display row1) SHAREABLE_PROFILE = ''open ~/work/app/src/main.ts'' \<and>
   redactString ''/Users/bob'' (h_display row1) SHAREABLE_PROFILE = ''open src/main.ts''"
  by code_simp


section \<open>Gap-capped hours\<close>

lemma gapLoop_sum:
  "gapLoop ts i totalMs =
     totalMs + (\<Sum>k \<leftarrow> [i..<length ts]. min (ts ! k - ts ! (k - 1)) GAP_CAP_MS)"
proof (induction ts i totalMs rule: gapLoop.induct)
  case (1 ts i totalMs)
  show ?case
  proof (cases "i < length ts")
    case True
    then have "[i..<length ts] = i # [i + 1..<length ts]"
      by (simp add: upt_conv_Cons)
    with 1 True show ?thesis
      by (subst gapLoop.simps) simp
  next
    case False
    then show ?thesis by (subst gapLoop.simps) simp
  qed
qed

lemma pairs_by_index:
  "map (\<lambda>k. g (ts ! (k - 1)) (ts ! k)) [1..<length ts] = map (\<lambda>(a, b). g a b) (zip ts (tl ts))"
  by (rule nth_equalityI) (auto simp: nth_tl)

lemma cappedGaps_pairs:
  "1 < length ts \<Longrightarrow>
   cappedGaps ts = (\<Sum>(a, b) \<leftarrow> zip ts (tl ts). min (b - a) (15 * 60 * 1000))"
  by (simp only: cappedGaps_def) simp

lemma gapLoop_cappedGaps:
  assumes l: "1 < length ts"
  shows "gapLoop ts 1 totalMs = totalMs + cappedGaps ts"
proof -
  have "map (\<lambda>k. min (ts ! k - ts ! (k - 1)) (15 * 60 * 1000)) [1..<length ts] =
        map (\<lambda>(a, b). min (b - a) (15 * 60 * 1000)) (zip ts (tl ts))"
    by (rule pairs_by_index [of "\<lambda>a b. min (b - a) (15 * 60 * 1000)" ts])
  then have "(\<Sum>k \<leftarrow> [1..<length ts]. min (ts ! k - ts ! (k - 1)) (15 * 60 * 1000)) =
        (\<Sum>(a, b) \<leftarrow> zip ts (tl ts). min (b - a) (15 * 60 * 1000))"
    by (rule arg_cong [of _ _ sum_list])
  then have "(\<Sum>k \<leftarrow> [1..<length ts]. min (ts ! k - ts ! (k - 1)) (15 * 60 * 1000)) = cappedGaps ts"
    by (simp only: cappedGaps_pairs [OF l])
  then show ?thesis
    by (simp only: gapLoop_sum GAP_CAP_MS_def)
qed

lemma sessionTimestamps_contribution:
  "(if length (sessionTimestamps s) \<le> 1 then 5 * 60 * 1000 else cappedGaps (sessionTimestamps s))
     = contribution s"
  by (simp add: sessionTimestamps_def contribution_def cappedGaps_def)

lemma sessionLoop_sum:
  "sessionLoop sessions totalMs = totalMs + (\<Sum>s \<leftarrow> sessions. contribution s)"
proof (induction sessions arbitrary: totalMs)
  case Nil
  then show ?case by simp
next
  case (Cons s sessions)
  show ?case
  proof (cases "length (sessionTimestamps s) \<le> 1")
    case True
    with sessionTimestamps_contribution [of s] have "contribution s = 5 * 60 * 1000" by simp
    with True Cons show ?thesis by (simp add: Let_def)
  next
    case False
    with sessionTimestamps_contribution [of s]
    have "contribution s = cappedGaps (sessionTimestamps s)" by simp
    with False Cons show ?thesis by (simp add: Let_def gapLoop_cappedGaps [unfolded One_nat_def])
  qed
qed

lemma single_timestamp_contribution:
  "length (s_promptTimestamps (s::SessionInfo)) = 1 \<Longrightarrow> contribution s = 5 * 60 * 1000"
proof -
  assume l: "length (s_promptTimestamps s) = 1"
  then have "s_promptTimestamps s \<noteq> []" by auto
  with l show ?thesis by (simp add: contribution_def cappedGaps_def)
qed

lemma estimateHours_sum:
  "estimateHours sessions = real_of_int (\<Sum>s \<leftarrow> sessions. contribution s) / 3600000"
proof (cases sessions)
  case Nil
  then show ?thesis by (simp add: estimateHours_def)
next
  case (Cons s ss)
  then have "estimateHours sessions = real_of_int (sessionLoop sessions 0) / (1000 * 60 * 60)"
    by (simp add: estimateHours_def)
  then show ?thesis
    by (simp only: sessionLoop_sum) simp
qed

text \<open>
  C4, as amended. \<open>estimateHours\<close> is the sum of the contributions of the sessions, in
  milliseconds, divided by 3,600,000. A session with prompt timestamps contributes the
  capped gaps of its sorted timestamps: five minutes when there is one timestamp, whatever
  the recorded duration, else the sum over consecutive pairs of the smaller of the gap and
  fifteen minutes. A session with no prompt timestamp is measured on the start and end of
  its time range instead, as far as they are positive.
\<close>

theorem C4_hours_are_capped_gap_sum:
  "estimateHours sessions = real_of_int (\<Sum>s \<leftarrow> sessions. contribution s) / 3600000 \<and>
   (\<forall>s \<in> set sessions. length (s_promptTimestamps s) = 1 \<longrightarrow> contribution s = 5 * 60 * 1000)"
proof (intro conjI ballI impI)
  show "estimateHours sessions = real_of_int (\<Sum>s \<leftarrow> sessions. contribution s) / 3600000"
    by (rule estimateHours_sum)
next
  fix s :: SessionInfo
  assume "length (s_promptTimestamps s) = 1"
  then show "contribution s = 5 * 60 * 1000"
    by (rule single_timestamp_contribution)
qed


lemma no_prompt_hours: "estimateHours [no_prompt] = 1 / 6"
  by code_simp

text \<open>
  C4 as stated fails for a session with no prompt timestamp: with a time range of ten
  minutes it contributes ten minutes, not the floor of five.
\<close>

theorem C4_counterexample:
  "s_promptTimestamps no_prompt = [] \<and>
   tr_end (s_timeRange no_prompt) - tr_start (s_timeRange no_prompt) = 10 * 60 * 1000 \<and>
   estimateHours [no_prompt] = 1 / 6 \<and>
   estimateHours [no_prompt] \<noteq> (5 * 60 * 1000) / 3600000"
  by (simp add: no_prompt_hours) (simp add: no_prompt_def)

lemma example_contributions:
  "contribution three_prompts = 20 * 60 * 1000" "contribution one_prompt = 5 * 60 * 1000"
  by code_simp+

theorem C4_witness:
  "length (s_promptTimestamps one_prompt) = 1 \<and>
   tr_end (s_timeRange one_prompt) - tr_start (s_timeRange one_prompt) = 2 * 60 * 60 * 1000 \<and>
   contribution one_prompt = 5 * 60 * 1000 \<and>
   contribution three_prompts = (5 + 15) * 60 * 1000 \<and>
   estimateHours [three_prompts, one_prompt] = (5 + 15 + 5) / 60"
proof -
  have l: "length (s_promptTimestamps one_prompt) = 1"
    and d: "tr_end (s_timeRange one_prompt) - tr_start (s_timeRange one_prompt) = 2 * 60 * 60 * 1000"
    by (simp_all add: one_prompt_def)
  from C4_hours_are_capped_gap_sum [of "[three_prompts, one_prompt]"] l
  have "estimateHours [three_prompts, one_prompt] =
          real_of_int (contribution three_prompts + contribution one_prompt) / 3600000"
    and "contribution one_prompt = 5 * 60 * 1000"
    by simp_all
  with l d show ?thesis
    by (simp add: example_contributions)
qed


section \<open>Cost of a session\<close>

lemma estimateCost_entry:
  "getModelPricing activePricing (model session) = Entry rates \<Longrightarrow>
   estimateCost activePricing session = Num (bucketCost rates session)"
  by (simp add: estimateCost_def bucketCost_def Let_def)

text \<open>
  C5, as amended. For a session whose model id is not a name that the price table only
  inherits from \<^verbatim>\<open>Object.prototype\<close>, the cost is the sum over the four token buckets of the
  count, per million, times the rate of the bucket. The rates are the fallback tier when
  the model id is undefined, empty or not found in the table, and the table's own entry for
  the model id otherwise; the cost is then a real number. A million input tokens and no
  other token, on a model priced at 3 per million input tokens, cost exactly 3.
\<close>

theorem C5_cost_is_rate_sum_with_fallback:
  "(model session = None \<or> model session = Some [] \<or>
      (\<exists>m. model session = Some m \<and> activePricing m = None \<and> m \<notin> set OBJECT_PROTOTYPE_KEYS) \<longrightarrow>
      estimateCost activePricing session = Num (bucketCost FALLBACK_PRICING session)) \<and>
   (\<forall>m rates. model session = Some m \<and> m \<noteq> [] \<and> activePricing m = Some rates \<longrightarrow>
      estimateCost activePricing session = Num (bucketCost rates session) \<and>
      (p_input rates = 3 \<and> totalInputTokens session = 1000000 \<and> totalOutputTokens session = 0 \<and>
       cacheCreationInputTokens session = 0 \<and> cacheReadInputTokens session = 0 \<longrightarrow>
       estimateCost activePricing session = Num 3))"
proof (intro conjI allI impI)
  assume "model session = None \<or> model session = Some [] \<or>
      (\<exists>m. model session = Some m \<and> activePricing m = None \<and> m \<notin> set OBJECT_PROTOTYPE_KEYS)"
  then have "getModelPricing activePricing (model session) = Entry FALLBACK_PRICING"
    by (auto simp: getModelPricing_def objectGet_def)
  then show "estimateCost activePricing session = Num (bucketCost FALLBACK_PRICING session)"
    by (rule estimateCost_entry)
next
  fix m rates
  assume a: "model session = Some m \<and> m \<noteq> [] \<and> activePricing m = Some rates"
  then have "getModelPricing activePricing (model session) = Entry rates"
    by (simp add: getModelPricing_def objectGet_def)
  then show c: "estimateCost activePricing session = Num (bucketCost rates session)"
    by (rule estimateCost_entry)
  assume "p_input rates = 3 \<and> totalInputTokens session = 1000000 \<and> totalOutputTokens session = 0 \<and>
       cacheCreationInputTokens session = 0 \<and> cacheReadInputTokens session = 0"
  then show "estimateCost activePricing session = Num 3"
    unfolding c by (simp add: bucketCost_def)
qed

lemma million_input_fields:
  "model (million_input x) = x" "totalInputTokens (million_input x) = 1000000"
  "totalOutputTokens (million_input x) = 0" "cacheCreationInputTokens (million_input x) = 0"
  "cacheReadInputTokens (million_input x) = 0"
  by (simp_all add: million_input_def initialMeta_def)

lemma empty_id_entry: "pricing_with_empty_id [] = Some flat_rates"
  by (simp add: pricing_with_empty_id_def setPricing_def)

lemma empty_id_cost: "estimateCost pricing_with_empty_id (million_input (Some [])) = Num 3"
  by (simp add: estimateCost_def getModelPricing_def million_input_fields FALLBACK_PRICING_def)

lemma empty_id_rates: "bucketCost flat_rates (million_input (Some [])) = 1"
  by (simp add: bucketCost_def million_input_fields flat_rates_def)

lemma sonnet_entry: "MODEL_PRICING ''claude-sonnet-4-5-20250929'' = Some sonnet_rates"
  by (simp add: MODEL_PRICING_def)

lemma unknown_entry: "MODEL_PRICING ''gpt-x'' = None" "''gpt-x'' \<notin> set OBJECT_PROTOTYPE_KEYS"
  by (simp_all add: MODEL_PRICING_def OBJECT_PROTOTYPE_KEYS_def)

lemma constructor_entry:
  "MODEL_PRICING ''constructor'' = None" "''constructor'' \<in> set OBJECT_PROTOTYPE_KEYS"
  by (simp_all add: MODEL_PRICING_def OBJECT_PROTOTYPE_KEYS_def)

lemma constructor_cost: "estimateCost MODEL_PRICING (million_input (Some ''constructor'')) = NaN"
  by (simp add: estimateCost_def getModelPricing_def objectGet_def million_input_fields
        constructor_entry)

text \<open>
  C5 as stated fails twice. On the empty model id the table is not read: when it has an
  entry for the empty id, the fallback rates are charged all the same. And a model id that
  is not in the table but names a property of \<^verbatim>\<open>Object.prototype\<close> does not get the fallback
  rates: the cost is \<^verbatim>\<open>NaN\<close>.
\<close>

theorem C5_counterexample:
  "model (million_input (Some [])) = Some [] \<and>
   pricing_with_empty_id [] = Some flat_rates \<and>
   bucketCost flat_rates (million_input (Some [])) = 1 \<and>
   estimateCost pricing_with_empty_id (million_input (Some [])) = Num 3 \<and>
   model (million_input (Some ''constructor'')) = Some ''constructor'' \<and>
   MODEL_PRICING ''constructor'' = None \<and>
   estimateCost MODEL_PRICING (million_input (Some ''constructor'')) = NaN \<and>
   estimateCost MODEL_PRICING (million_input (Some ''constructor'')) \<noteq>
     Num (bucketCost FALLBACK_PRICING (million_input (Some ''constructor'')))"
  by (simp add: empty_id_entry empty_id_cost empty_id_rates constructor_entry constructor_cost
        million_input_fields)

theorem C5_witness:
  "estimateCost MODEL_PRICING (million_input (Some ''claude-sonnet-4-5-20250929'')) = Num 3 \<and>
   MODEL_PRICING ''gpt-x'' = None \<and> ''gpt-x'' \<notin> set OBJECT_PROTOTYPE_KEYS \<and>
   estimateCost MODEL_PRICING (million_input (Some ''gpt-x'')) =
     Num (bucketCost FALLBACK_PRICING (million_input (Some ''gpt-x''))) \<and>
   estimateCost MODEL_PRICING (million_input None) =
     Num (bucketCost FALLBACK_PRICING (million_input None))"
proof -
  note f = million_input_fields
  have r: "p_input sonnet_rates = 3" by (simp add: sonnet_rates_def)
  from C5_cost_is_rate_sum_with_fallback
         [of "million_input (Some ''claude-sonnet-4-5-20250929'')" MODEL_PRICING]
       sonnet_entry r f
  have 1: "estimateCost MODEL_PRICING (million_input (Some ''claude-sonnet-4-5-20250929'')) = Num 3"
    by auto
  from C5_cost_is_rate_sum_with_fallback [of "million_input (Some ''gpt-x'')" MODEL_PRICING]
       unknown_entry f
  have 2: "estimateCost MODEL_PRICING (million_input (Some ''gpt-x'')) =
     Num (bucketCost FALLBACK_PRICING (million_input (Some ''gpt-x'')))"
    by simp
  from C5_cost_is_rate_sum_with_fallback [of "million_input None" MODEL_PRICING] f
  have 3: "estimateCost MODEL_PRICING (million_input None) =
     Num (bucketCost FALLBACK_PRICING (million_input None))"
    by simp
  from 1 2 3 unknown_entry show ?thesis by simp
qed


section \<open>Display names and the dedup of tool calls\<close>

lemma addToolCalls_distinct:
  "distinct (map fst m) \<Longrightarrow> distinct (map fst (addToolCalls tcs m))"
  unfolding addToolCalls_def by (induction tcs arbitrary: m) (simp_all add: distinct_update)

lemma addToolCalls_keys:
  "fst ` set (addToolCalls tcs m) = fst ` set m \<union> tc_displayName ` set tcs"
  unfolding addToolCalls_def by (induction tcs arbitrary: m) (auto simp: dom_update)

lemma update_keyed:
  "\<forall>(k, v) \<in> set m. tc_displayName v = k \<Longrightarrow>
   \<forall>(k, v) \<in> set (AList.update (tc_displayName tc) tc m). tc_displayName v = k"
  by (induction m) (auto split: if_splits)

lemma addToolCalls_keyed:
  "\<forall>(k, v) \<in> set m. tc_displayName v = k \<Longrightarrow>
   \<forall>(k, v) \<in> set (addToolCalls tcs m). tc_displayName v = k"
  unfolding addToolCalls_def
proof (induction tcs arbitrary: m)
  case Nil
  then show ?case by simp
next
  case (Cons tc tcs)
  from update_keyed [OF Cons.prems, of tc] show ?case
    by (simp add: Cons.IH)
qed

lemma addToolCalls_append:
  "addToolCalls (xs @ ys) m = addToolCalls ys (addToolCalls xs m)"
  by (simp add: addToolCalls_def)

lemma addToolCalls_Nil: "addToolCalls [] m = m"
  by (simp add: addToolCalls_def)

lemma processAssistant_toolCallSet:
  "processAssistant st content = Inr st' \<Longrightarrow>
   \<exists>tcs. extractToolCalls content = Inr tcs \<and>
         ps_toolCallSet st' = addToolCalls tcs (ps_toolCallSet st)"
  by (auto simp: processAssistant_def Let_def split: sum.splits if_splits)

lemma processEntry_toolCallSet:
  assumes "processEntry st filtered = Inr st'"
  shows "ps_toolCallSet st' = addToolCalls (entryToolCalls filtered) (ps_toolCallSet st)"
proof (cases "e_message filtered")
  case None
  with assms show ?thesis
    by (auto simp: processEntry_def entryToolCalls_def addToolCalls_Nil Let_def split: if_splits)
next
  case (Some message)
  show ?thesis
  proof (cases "m_role message = Some Assistant \<and> truthy_content (m_content message)")
    case True
    with assms Some obtain st6 where
      p: "processAssistant st6 (m_content message) = Inr st'"
      and s: "ps_toolCallSet st6 = ps_toolCallSet st"
      by (auto simp: processEntry_def Let_def split: option.splits if_splits)
    from processAssistant_toolCallSet [OF p] s True Some show ?thesis
      by (auto simp: entryToolCalls_def)
  next
    case False
    with assms Some show ?thesis
      by (auto simp: processEntry_def entryToolCalls_def addToolCalls_Nil Let_def
               split: option.splits if_splits)
  qed
qed

lemma parseLines_toolCallSet:
  "parseLines home parse privacy lines st = Inr st' \<Longrightarrow>
   ps_toolCallSet st' =
     addToolCalls (concat (map entryToolCalls (survivingEntries home parse privacy lines)))
       (ps_toolCallSet st)"
proof (induction lines arbitrary: st)
  case Nil
  then show ?case by (simp add: survivingEntries_def addToolCalls_Nil)
next
  case (Cons line lines)
  show ?case
  proof (cases "survivingEntries home parse privacy [line]")
    case Nil
    then have skip: "blank line \<or> parse line = None \<or>
        (\<exists>e. parse line = Some e \<and> filterTranscriptEntry home e privacy = None)"
      by (auto simp: survivingEntries_def split: if_splits option.splits)
    then have "parseLines home parse privacy (line # lines) st = parseLines home parse privacy lines st"
      by auto
    with Cons.prems have "parseLines home parse privacy lines st = Inr st'" by simp
    from Cons.IH [OF this] Nil show ?thesis
      by (simp add: survivingEntries_def split: if_splits option.splits)
  next
    case (Cons f fs)
    then obtain e where e: "\<not> blank line" "parse line = Some e"
        "filterTranscriptEntry home e privacy = Some f"
      by (auto simp: survivingEntries_def split: if_splits option.splits)
    with Cons.prems obtain st1 where p: "processEntry st f = Inr st1"
      and r: "parseLines home parse privacy lines st1 = Inr st'"
      by (auto split: sum.splits)
    have sv: "survivingEntries home parse privacy (line # lines) =
              f # survivingEntries home parse privacy lines"
      using e by (simp add: survivingEntries_def)
    from Cons.IH [OF r] processEntry_toolCallSet [OF p] show ?thesis
      by (simp add: sv addToolCalls_append)
  qed
qed


lemma parseSessionDetail_toolCalls:
  assumes "parseSessionDetail home parse fs session projectsDir privacy = Inr d"
  shows "distinct (map tc_displayName (toolCalls d)) \<and>
         set (map tc_displayName (toolCalls d)) =
           tc_displayName ` set (sessionToolCalls home parse fs session projectsDir privacy)"
proof (cases "fs (sessionFilePath projectsDir (s_project session) (s_sessionId session))")
  case None
  with assms show ?thesis
    by (auto simp: parseSessionDetail_def sessionToolCalls_def initialDetail_def)
next
  case (Some body)
  let ?st0 = "\<lparr>ps_detail = initialDetail session, ps_toolCallSet = [], ps_fileSet = [],
               ps_gitBranch = None, ps_model = None\<rparr>"
  let ?all = "concat (map entryToolCalls (survivingEntries home parse privacy (split [CHR 0x0A] body)))"
  from assms Some obtain st where
    p: "parseLines home parse privacy (split [CHR 0x0A] body) ?st0 = Inr st"
    and d: "d = finishDetail st"
    by (auto simp: parseSessionDetail_def Let_def split: sum.splits)
  from parseLines_toolCallSet [OF p] have m: "ps_toolCallSet st = addToolCalls ?all []"
    by simp
  have k: "\<forall>(k, v) \<in> set (ps_toolCallSet st). tc_displayName v = k"
    unfolding m by (rule addToolCalls_keyed) simp
  then have n: "map tc_displayName (map snd (ps_toolCallSet st)) = map fst (ps_toolCallSet st)"
    by (induction "ps_toolCallSet st") auto
  have t: "toolCalls d = map snd (ps_toolCallSet st)"
    by (simp add: d finishDetail_def)
  have "distinct (map fst (ps_toolCallSet st))"
    unfolding m by (rule addToolCalls_distinct) simp
  moreover have "set (map fst (ps_toolCallSet st)) = tc_displayName ` set ?all"
    unfolding m using addToolCalls_keys [of ?all "[]"] by simp
  ultimately show ?thesis
    unfolding t n by (simp add: sessionToolCalls_def Some)
qed

lemma update_values:
  "snd ` set (AList.update k v m) \<subseteq> insert v (snd ` set m)"
  by (induction m) auto

lemma addToolCalls_values:
  "snd ` set (addToolCalls tcs m) \<subseteq> snd ` set m \<union> set tcs"
  unfolding addToolCalls_def
proof (induction tcs arbitrary: m)
  case Nil
  then show ?case by simp
next
  case (Cons tc tcs)
  from Cons.IH [of "AList.update (tc_displayName tc) tc m"]
       update_values [of "tc_displayName tc" tc m]
  show ?case by auto
qed

text \<open>
  The name and the display name of each summary are those of the invocation block it was
  made from: the display name is \<open>toolDisplayName\<close> of the name and arguments of the block.
\<close>

lemma toolCallsOf_blocks:
  "toolCallsOf bs = Inr tcs \<Longrightarrow>
   map (\<lambda>tc. (tc_name tc, tc_displayName tc)) tcs =
   map (\<lambda>b. (the (b_name b), toolDisplayName (the (b_name b)) (b_input b)))
     (filter (\<lambda>b. b_type b = Tool_use \<and> truthy_str (b_name b)) bs)"
  by (induction bs arbitrary: tcs) (auto split: if_splits sum.splits)

lemma processEntry_blocks:
  assumes "processEntry st filtered = Inr st'"
  shows "map (\<lambda>tc. (tc_name tc, tc_displayName tc)) (entryToolCalls filtered) =
         map (\<lambda>b. (the (b_name b), toolDisplayName (the (b_name b)) (b_input b)))
           (entryToolBlocks filtered)"
proof (cases "e_message filtered")
  case None
  then show ?thesis by (simp add: entryToolCalls_def entryToolBlocks_def)
next
  case (Some message)
  show ?thesis
  proof (cases "m_role message = Some Assistant")
    case False
    with Some show ?thesis by (simp add: entryToolCalls_def entryToolBlocks_def)
  next
    case True
    show ?thesis
    proof (cases "m_content message")
      case None
      with Some True show ?thesis by (simp add: entryToolCalls_def entryToolBlocks_def)
    next
      case c: (Some content)
      show ?thesis
      proof (cases content)
        case (CString str)
        with Some True c show ?thesis
          by (simp add: entryToolCalls_def entryToolBlocks_def extractToolCalls_def)
      next
        case (CBlocks bs)
        with assms Some True c obtain st6 where
          "processAssistant st6 (Some (CBlocks bs)) = Inr st'"
          by (auto simp: processEntry_def Let_def split: option.splits if_splits)
        from processAssistant_toolCallSet [OF this] obtain tcs where
          t: "toolCallsOf bs = Inr tcs"
          by (auto simp: extractToolCalls_def)
        from toolCallsOf_blocks [OF t] Some True c CBlocks t show ?thesis
          by (simp add: entryToolCalls_def entryToolBlocks_def extractToolCalls_def)
      qed
    qed
  qed
qed

lemma parseLines_blocks:
  "parseLines home parse privacy lines st = Inr st' \<Longrightarrow>
   map (\<lambda>tc. (tc_name tc, tc_displayName tc))
     (concat (map entryToolCalls (survivingEntries home parse privacy lines))) =
   map (\<lambda>b. (the (b_name b), toolDisplayName (the (b_name b)) (b_input b)))
     (concat (map entryToolBlocks (survivingEntries home parse privacy lines)))"
proof (induction lines arbitrary: st)
  case Nil
  then show ?case by (simp add: survivingEntries_def)
next
  case (Cons line lines)
  show ?case
  proof (cases "survivingEntries home parse privacy [line]")
    case Nil
    then have skip: "blank line \<or> parse line = None \<or>
        (\<exists>e. parse line = Some e \<and> filterTranscriptEntry home e privacy = None)"
      by (auto simp: survivingEntries_def split: if_splits option.splits)
    then have "parseLines home parse privacy (line # lines) st = parseLines home parse privacy lines st"
      by auto
    with Cons.prems have "parseLines home parse privacy lines st = Inr st'" by simp
    from Cons.IH [OF this] Nil show ?thesis
      by (simp add: survivingEntries_def split: if_splits option.splits)
  next
    case (Cons f fs)
    then obtain e where e: "\<not> blank line" "parse line = Some e"
        "filterTranscriptEntry home e privacy = Some f"
      by (auto simp: survivingEntries_def split: if_splits option.splits)
    with Cons.prems obtain st1 where p: "processEntry st f = Inr st1"
      and r: "parseLines home parse privacy lines st1 = Inr st'"
      by (auto split: sum.splits)
    have sv: "survivingEntries home parse privacy (line # lines) =
              f # survivingEntries home parse privacy lines"
      using e by (simp add: survivingEntries_def)
    from Cons.IH [OF r] processEntry_blocks [OF p] show ?thesis
      by (simp add: sv)
  qed
qed

lemma parseSessionDetail_blocks:
  assumes "parseSessionDetail home parse fs session projectsDir privacy = Inr d"
  shows "map (\<lambda>tc. (tc_name tc, tc_displayName tc))
           (sessionToolCalls home parse fs session projectsDir privacy) =
         map (\<lambda>b. (the (b_name b), toolDisplayName (the (b_name b)) (b_input b)))
           (sessionToolBlocks home parse fs session projectsDir privacy)"
proof (cases "fs (sessionFilePath projectsDir (s_project session) (s_sessionId session))")
  case None
  then show ?thesis by (simp add: sessionToolCalls_def sessionToolBlocks_def)
next
  case (Some body)
  from assms Some obtain st where
    "parseLines home parse privacy (split [CHR 0x0A] body)
       \<lparr>ps_detail = initialDetail session, ps_toolCallSet = [], ps_fileSet = [],
        ps_gitBranch = None, ps_model = None\<rparr> = Inr st"
    by (auto simp: parseSessionDetail_def Let_def split: sum.splits)
  from parseLines_blocks [OF this] Some show ?thesis
    by (simp add: sessionToolCalls_def sessionToolBlocks_def)
qed

lemma parseSessionDetail_summaries:
  assumes "parseSessionDetail home parse fs session projectsDir privacy = Inr d"
  shows "set (toolCalls d) \<subseteq> set (sessionToolCalls home parse fs session projectsDir privacy)"
proof (cases "fs (sessionFilePath projectsDir (s_project session) (s_sessionId session))")
  case None
  with assms show ?thesis
    by (auto simp: parseSessionDetail_def initialDetail_def)
next
  case (Some body)
  from assms Some obtain st where
    p: "parseLines home parse privacy (split [CHR 0x0A] body)
       \<lparr>ps_detail = initialDetail session, ps_toolCallSet = [], ps_fileSet = [],
        ps_gitBranch = None, ps_model = None\<rparr> = Inr st"
    and d: "d = finishDetail st"
    by (auto simp: parseSessionDetail_def Let_def split: sum.splits)
  from parseLines_toolCallSet [OF p]
  have "ps_toolCallSet st = addToolCalls (sessionToolCalls home parse fs session projectsDir privacy) []"
    by (simp add: sessionToolCalls_def Some)
  with addToolCalls_values [of "sessionToolCalls home parse fs session projectsDir privacy" "[]"]
  have "snd ` set (ps_toolCallSet st) \<subseteq> set (sessionToolCalls home parse fs session projectsDir privacy)"
    by simp
  then show ?thesis
    by (simp add: d finishDetail_def)
qed

text \<open>What a parsed session holds of the tool invocations of its transcript.\<close>

lemma parseSessionDetail_dedup:
  assumes ok: "parseSessionDetail home parse fs session projectsDir privacy = Inr d"
  shows "distinct (map tc_displayName (toolCalls d))"
    and "set (map tc_displayName (toolCalls d)) =
           (\<lambda>b. toolDisplayName (the (b_name b)) (b_input b)) `
             set (sessionToolBlocks home parse fs session projectsDir privacy)"
    and "\<forall>b \<in> set (sessionToolBlocks home parse fs session projectsDir privacy).
           \<exists>!i. i < length (toolCalls d) \<and>
                 tc_displayName (toolCalls d ! i) = toolDisplayName (the (b_name b)) (b_input b)"
    and "\<forall>tc \<in> set (toolCalls d).
           \<exists>b \<in> set (sessionToolBlocks home parse fs session projectsDir privacy).
             tc_name tc = the (b_name b) \<and>
             tc_displayName tc = toolDisplayName (the (b_name b)) (b_input b)"
proof -
  let ?calls = "sessionToolCalls home parse fs session projectsDir privacy"
  let ?blocks = "sessionToolBlocks home parse fs session projectsDir privacy"
  let ?dn = "\<lambda>b. toolDisplayName (the (b_name b)) (b_input b)"
  note pairs = parseSessionDetail_blocks [OF ok]
  from parseSessionDetail_toolCalls [OF ok]
  have dist: "distinct (map tc_displayName (toolCalls d))"
    and names: "set (map tc_displayName (toolCalls d)) = tc_displayName ` set ?calls"
    by simp_all
  show "distinct (map tc_displayName (toolCalls d))" by (rule dist)
  have "map snd (map (\<lambda>tc. (tc_name tc, tc_displayName tc)) ?calls) =
        map snd (map (\<lambda>b. (the (b_name b), ?dn b)) ?blocks)"
    by (simp only: pairs)
  then have dn: "map tc_displayName ?calls = map ?dn ?blocks"
    by (simp add: comp_def)
  have "tc_displayName ` set ?calls = ?dn ` set ?blocks"
    using arg_cong [OF dn, of set] by (simp only: set_map)
  with names show eq: "set (map tc_displayName (toolCalls d)) = ?dn ` set ?blocks"
    by simp
  show "\<forall>b \<in> set ?blocks. \<exists>!i. i < length (toolCalls d) \<and>
                 tc_displayName (toolCalls d ! i) = ?dn b"
  proof
    fix b assume "b \<in> set ?blocks"
    with eq have "?dn b \<in> set (map tc_displayName (toolCalls d))" by blast
    with dist have "\<exists>!i. i < length (map tc_displayName (toolCalls d)) \<and>
                        map tc_displayName (toolCalls d) ! i = ?dn b"
      by (intro distinct_Ex1)
    then show "\<exists>!i. i < length (toolCalls d) \<and> tc_displayName (toolCalls d ! i) = ?dn b"
      by (auto cong: conj_cong)
  qed
  show "\<forall>tc \<in> set (toolCalls d). \<exists>b \<in> set ?blocks.
             tc_name tc = the (b_name b) \<and> tc_displayName tc = ?dn b"
  proof
    fix tc assume "tc \<in> set (toolCalls d)"
    with parseSessionDetail_summaries [OF ok] have "tc \<in> set ?calls" by blast
    then have "(tc_name tc, tc_displayName tc) \<in> set (map (\<lambda>tc. (tc_name tc, tc_displayName tc)) ?calls)"
      by force
    then have "(tc_name tc, tc_displayName tc) \<in> set (map (\<lambda>b. (the (b_name b), ?dn b)) ?blocks)"
      by (simp only: pairs)
    then show "\<exists>b \<in> set ?blocks. tc_name tc = the (b_name b) \<and> tc_displayName tc = ?dn b"
      by auto
  qed
qed

text \<open>
  C6, as amended. The display name of a tool invocation is the tool name, or for a name
  that starts with \<^verbatim>\<open>mcp__\<close> its last \<^verbatim>\<open>__\<close>-separated part (the whole name when that part
  is empty), followed in parentheses by the first of: the last two segments of a string
  \<^verbatim>\<open>file_path\<close>, the first space-delimited token of a string \<^verbatim>\<open>command\<close>, a string
  \<^verbatim>\<open>pattern\<close>; and by nothing when there is none of them, so that a notebook path or a
  query never shows in it. Within a session this display name is the dedup key. The
  summaries of a parsed session have pairwise different display names; every invocation
  block of a surviving assistant message has exactly one summary whose display name is
  \<open>toolDisplayName\<close> of the block's name and arguments, so that two blocks with the same
  display name share one summary and two with different display names have two; and every
  summary has the name and the display name of such a block.
\<close>

theorem C6_display_name_is_dedup_key:
  "(\<forall>fp. stringArg input ''file_path'' = Some fp \<longrightarrow>
      toolDisplayName name input =
        shortToolName name @ ''('' @ join ''/'' (slice_last2 (split ''/'' fp)) @ '')'') \<and>
   (\<forall>c. stringArg input ''file_path'' = None \<and> stringArg input ''command'' = Some c \<longrightarrow>
      toolDisplayName name input = shortToolName name @ ''('' @ hd (split '' '' c) @ '')'') \<and>
   (\<forall>p. stringArg input ''file_path'' = None \<and> stringArg input ''command'' = None \<and>
        stringArg input ''pattern'' = Some p \<longrightarrow>
      toolDisplayName name input = shortToolName name @ ''('' @ p @ '')'') \<and>
   (stringArg input ''file_path'' = None \<and> stringArg input ''command'' = None \<and>
    stringArg input ''pattern'' = None \<longrightarrow>
      toolDisplayName name input = shortToolName name) \<and>
   (\<not> startsWith ''mcp__'' name \<longrightarrow> shortToolName name = name) \<and>
   (startsWith ''mcp__'' name \<longrightarrow>
      shortToolName name =
        (if last (split ''__'' name) = [] then name else last (split ''__'' name))) \<and>
   (\<forall>d. parseSessionDetail home parse fs session projectsDir privacy = Inr d \<longrightarrow>
      distinct (map tc_displayName (toolCalls d)) \<and>
      set (map tc_displayName (toolCalls d)) =
        (\<lambda>b. toolDisplayName (the (b_name b)) (b_input b)) `
          set (sessionToolBlocks home parse fs session projectsDir privacy) \<and>
      (\<forall>b \<in> set (sessionToolBlocks home parse fs session projectsDir privacy).
         \<exists>!i. i < length (toolCalls d) \<and>
               tc_displayName (toolCalls d ! i) = toolDisplayName (the (b_name b)) (b_input b)) \<and>
      (\<forall>tc \<in> set (toolCalls d).
         \<exists>b \<in> set (sessionToolBlocks home parse fs session projectsDir privacy).
           tc_name tc = the (b_name b) \<and>
           tc_displayName tc = toolDisplayName (the (b_name b)) (b_input b)))"
proof (intro conjI allI impI)
  fix d
  assume ok: "parseSessionDetail home parse fs session projectsDir privacy = Inr d"
  show "distinct (map tc_displayName (toolCalls d))"
    by (rule parseSessionDetail_dedup(1) [OF ok])
  show "set (map tc_displayName (toolCalls d)) =
        (\<lambda>b. toolDisplayName (the (b_name b)) (b_input b)) `
          set (sessionToolBlocks home parse fs session projectsDir privacy)"
    by (rule parseSessionDetail_dedup(2) [OF ok])
  show "\<forall>b \<in> set (sessionToolBlocks home parse fs session projectsDir privacy).
         \<exists>!i. i < length (toolCalls d) \<and>
               tc_displayName (toolCalls d ! i) = toolDisplayName (the (b_name b)) (b_input b)"
    by (rule parseSessionDetail_dedup(3) [OF ok])
  show "\<forall>tc \<in> set (toolCalls d).
         \<exists>b \<in> set (sessionToolBlocks home parse fs session projectsDir privacy).
           tc_name tc = the (b_name b) \<and>
           tc_displayName tc = toolDisplayName (the (b_name b)) (b_input b)"
    by (rule parseSessionDetail_dedup(4) [OF ok])
qed (simp_all add: toolDisplayName_def shortToolName_def Let_def)

lemma tools_detail_names:
  "map_sum id (\<lambda>d. map tc_displayName (toolCalls d))
     (parseSessionDetail ''/Users/alice'' parse_transcript tools_fs view_s1 projects_dir LOCAL_PROFILE)
   = Inr [''Read(src/main.ts)'', ''Read(src/util.ts)'', ''WebSearch'', ''NotebookEdit'']"
  by code_simp

lemma tools_blocks:
  "sessionToolBlocks ''/Users/alice'' parse_transcript tools_fs view_s1 projects_dir LOCAL_PROFILE
   = [tool_use ''Read'' [(''file_path'', JStr ''/Users/alice/work/app/src/main.ts'')],
      tool_use ''Read'' [(''file_path'', JStr ''/Users/alice/work/app/src/main.ts'')],
      tool_use ''Read'' [(''file_path'', JStr ''/Users/alice/work/app/src/util.ts'')],
      tool_use ''WebSearch'' [(''query'', JStr ''isabelle record package'')],
      tool_use ''WebSearch'' [(''query'', JStr ''bun test runner'')],
      tool_use ''NotebookEdit'' [(''notebook_path'', JStr ''/Users/alice/nb/a.ipynb'')],
      tool_use ''NotebookEdit'' [(''notebook_path'', JStr ''/Users/alice/nb/b.ipynb'')]]"
  by code_simp

lemma tools_block_names:
  "map (\<lambda>b. toolDisplayName (the (b_name b)) (b_input b))
     (sessionToolBlocks ''/Users/alice'' parse_transcript tools_fs view_s1 projects_dir LOCAL_PROFILE)
   = [''Read(src/main.ts)'', ''Read(src/main.ts)'', ''Read(src/util.ts)'', ''WebSearch'', ''WebSearch'',
      ''NotebookEdit'', ''NotebookEdit'']"
  by code_simp

lemma tools_all_targets:
  "map tc_target
     (sessionToolCalls ''/Users/alice'' parse_transcript tools_fs view_s1 projects_dir LOCAL_PROFILE)
   = [Some (JStr ''/Users/alice/work/app/src/main.ts''), Some (JStr ''/Users/alice/work/app/src/main.ts''),
      Some (JStr ''/Users/alice/work/app/src/util.ts''),
      Some (JStr ''isabelle record package''), Some (JStr ''bun test runner''),
      Some (JStr ''/Users/alice/nb/a.ipynb''), Some (JStr ''/Users/alice/nb/b.ipynb'')]"
  by code_simp

lemma query_display_names:
  "toolDisplayName ''WebSearch'' (Some [(''query'', JStr ''isabelle record package'')]) = ''WebSearch''"
  "toolDisplayName ''WebSearch'' (Some [(''query'', JStr ''bun test runner'')]) = ''WebSearch''"
  "toolDisplayName ''NotebookEdit'' (Some [(''notebook_path'', JStr ''/Users/alice/nb/a.ipynb'')]) = ''NotebookEdit''"
  by code_simp+

text \<open>
  C6 as stated fails. Two web searches with different queries, and two notebook edits with
  different notebook paths, have different salient arguments, yet each pair has one display
  name and collapses into one summary.
\<close>

theorem C6_counterexample:
  "map tc_target
     (sessionToolCalls ''/Users/alice'' parse_transcript tools_fs view_s1 projects_dir LOCAL_PROFILE)
   = [Some (JStr ''/Users/alice/work/app/src/main.ts''), Some (JStr ''/Users/alice/work/app/src/main.ts''),
      Some (JStr ''/Users/alice/work/app/src/util.ts''),
      Some (JStr ''isabelle record package''), Some (JStr ''bun test runner''),
      Some (JStr ''/Users/alice/nb/a.ipynb''), Some (JStr ''/Users/alice/nb/b.ipynb'')] \<and>
   toolDisplayName ''WebSearch'' (Some [(''query'', JStr ''isabelle record package'')]) = ''WebSearch'' \<and>
   toolDisplayName ''NotebookEdit'' (Some [(''notebook_path'', JStr ''/Users/alice/nb/a.ipynb'')])
     = ''NotebookEdit'' \<and>
   map_sum id (\<lambda>d. map tc_displayName (toolCalls d))
     (parseSessionDetail ''/Users/alice'' parse_transcript tools_fs view_s1 projects_dir LOCAL_PROFILE)
   = Inr [''Read(src/main.ts)'', ''Read(src/util.ts)'', ''WebSearch'', ''NotebookEdit'']"
  using tools_all_targets query_display_names tools_detail_names by simp

theorem C6_witness:
  "stringArg (Some [(''file_path'', JStr ''/Users/alice/work/app/src/main.ts'')]) ''file_path''
     = Some ''/Users/alice/work/app/src/main.ts'' \<and>
   \<not> startsWith ''mcp__'' ''Read'' \<and>
   toolDisplayName ''Read'' (Some [(''file_path'', JStr ''/Users/alice/work/app/src/main.ts'')])
     = ''Read(src/main.ts)'' \<and>
   tool_use ''Read'' [(''file_path'', JStr ''/Users/alice/work/app/src/main.ts'')]
     \<in> set (sessionToolBlocks ''/Users/alice'' parse_transcript tools_fs view_s1 projects_dir
                LOCAL_PROFILE) \<and>
   (\<exists>d. parseSessionDetail ''/Users/alice'' parse_transcript tools_fs view_s1 projects_dir
            LOCAL_PROFILE = Inr d \<and>
        distinct (map tc_displayName (toolCalls d)) \<and>
        set (map tc_displayName (toolCalls d)) =
          {''Read(src/main.ts)'', ''Read(src/util.ts)'', ''WebSearch'', ''NotebookEdit''} \<and>
        (\<exists>!i. i < length (toolCalls d) \<and>
               tc_displayName (toolCalls d ! i) = ''Read(src/main.ts)''))"
proof -
  let ?read = "tool_use ''Read'' [(''file_path'', JStr ''/Users/alice/work/app/src/main.ts'')]"
  let ?blocks = "sessionToolBlocks ''/Users/alice'' parse_transcript tools_fs view_s1 projects_dir
                   LOCAL_PROFILE"
  note c6 = C6_display_name_is_dedup_key
    [where name = "''Read''"
       and input = "Some [(''file_path'', JStr ''/Users/alice/work/app/src/main.ts'')]"
       and home = "''/Users/alice''" and parse = parse_transcript and fs = tools_fs
       and session = view_s1 and projectsDir = projects_dir and privacy = LOCAL_PROFILE]
  have a: "stringArg (Some [(''file_path'', JStr ''/Users/alice/work/app/src/main.ts'')]) ''file_path''
     = Some ''/Users/alice/work/app/src/main.ts''"
    by (simp add: stringArg_def)
  have b: "\<not> startsWith ''mcp__'' ''Read''" by simp
  have j: "join ''/'' (slice_last2 (split ''/'' ''/Users/alice/work/app/src/main.ts'')) = ''src/main.ts''"
    by code_simp
  from c6 a b have "toolDisplayName ''Read'' (Some [(''file_path'', JStr ''/Users/alice/work/app/src/main.ts'')])
     = ''Read'' @ ''('' @ join ''/'' (slice_last2 (split ''/'' ''/Users/alice/work/app/src/main.ts'')) @ '')''"
    by simp
  then have n: "toolDisplayName ''Read'' (Some [(''file_path'', JStr ''/Users/alice/work/app/src/main.ts'')])
     = ''Read(src/main.ts)''"
    unfolding j by simp
  have m: "?read \<in> set ?blocks"
    by (simp add: tools_blocks)
  have rn: "toolDisplayName (the (b_name ?read)) (b_input ?read) = ''Read(src/main.ts)''"
    using n by (simp add: tool_use_def block_of_def)
  from tools_detail_names obtain d where
    d: "parseSessionDetail ''/Users/alice'' parse_transcript tools_fs view_s1 projects_dir
          LOCAL_PROFILE = Inr d"
    by (cases "parseSessionDetail ''/Users/alice'' parse_transcript tools_fs view_s1 projects_dir
          LOCAL_PROFILE") auto
  with c6 have dist: "distinct (map tc_displayName (toolCalls d))"
    and names: "set (map tc_displayName (toolCalls d)) =
        (\<lambda>b. toolDisplayName (the (b_name b)) (b_input b)) ` set ?blocks"
    and one: "\<forall>b \<in> set ?blocks. \<exists>!i. i < length (toolCalls d) \<and>
               tc_displayName (toolCalls d ! i) = toolDisplayName (the (b_name b)) (b_input b)"
    by blast+
  have "(\<lambda>b. toolDisplayName (the (b_name b)) (b_input b)) ` set ?blocks =
      {''Read(src/main.ts)'', ''Read(src/util.ts)'', ''WebSearch'', ''NotebookEdit''}"
    using arg_cong [OF tools_block_names, of set] by (simp only: set_map) auto
  with names have s: "set (map tc_displayName (toolCalls d)) =
      {''Read(src/main.ts)'', ''Read(src/util.ts)'', ''WebSearch'', ''NotebookEdit''}"
    by simp
  from one m have "\<exists>!i. i < length (toolCalls d) \<and>
               tc_displayName (toolCalls d ! i) = toolDisplayName (the (b_name ?read)) (b_input ?read)"
    by blast
  then have u: "\<exists>!i. i < length (toolCalls d) \<and> tc_displayName (toolCalls d ! i) = ''Read(src/main.ts)''"
    by (simp only: rn)
  from a b n m d dist s u show ?thesis by blast
qed


end
